theory Spec2Isabelle
  imports Main
begin

section \<open>LeadEstate agency backend: the subscription and trial access-control layer\<close>

text \<open>
  A shallow embedding of the Express middleware of \<^verbatim>\<open>src/middleware/subscription.js\<close>
  (\<^verbatim>\<open>checkSubscriptionStatus\<close>, \<^verbatim>\<open>requireFeature\<close>, \<^verbatim>\<open>checkUsageLimit\<close>,
  \<^verbatim>\<open>addTrialInfo\<close>), of the trial-creation paths and of the plan model's feature test.
  Times are milliseconds since the epoch (the value of a JavaScript \<^verbatim>\<open>Date\<close>), numbers are
  integers (counts, limits and time stamps are all the code computes with), strings are
  ASCII byte strings.
\<close>

subsection \<open>JavaScript values\<close>

text \<open>
  The values that flow through the middleware: JSON values, dates, and \<open>JBuiltin k\<close>, the
  member \<open>k\<close> that every plain object inherits from \<^verbatim>\<open>Object.prototype\<close> (a function,
  or the prototype object itself for \<^verbatim>\<open>__proto__\<close>). The key list of a \<open>JObj\<close> has no
  repeated key.
\<close>

datatype jsval =
    JUndefined
  | JNull
  | JBool bool
  | JNum int
  | JNaN
  | JStr string
  | JDate int
  | JObj "(string \<times> jsval) list"
  | JBuiltin string

text \<open>A thrown JavaScript error: its \<^verbatim>\<open>name\<close> and its \<^verbatim>\<open>message\<close>.\<close>

datatype exn = Exn (err_name: string) (err_message: string)

fun truthy :: "jsval \<Rightarrow> bool" where
  "truthy JUndefined = False"
| "truthy JNull = False"
| "truthy (JBool b) = b"
| "truthy (JNum n) = (n \<noteq> 0)"
| "truthy JNaN = False"
| "truthy (JStr s) = (s \<noteq> [])"
| "truthy (JDate t) = True"
| "truthy (JObj kvs) = True"
| "truthy (JBuiltin k) = True"

definition object_prototype_keys :: "string list" where
  "object_prototype_keys =
     [''constructor'', ''__defineGetter__'', ''__defineSetter__'', ''hasOwnProperty'',
      ''__lookupGetter__'', ''__lookupSetter__'', ''isPrototypeOf'',
      ''propertyIsEnumerable'', ''toString'', ''valueOf'', ''__proto__'',
      ''toLocaleString'']"

text \<open>
  \<^verbatim>\<open>obj[k]\<close> on an object literal: the own property when there is one, otherwise the member
  inherited through the prototype chain, otherwise \<^verbatim>\<open>undefined\<close>.
\<close>

definition obj_get :: "(string \<times> jsval) list \<Rightarrow> string \<Rightarrow> jsval" where
  "obj_get kvs k =
     (case map_of kvs k of
        Some v \<Rightarrow> v
      | None \<Rightarrow> if k \<in> set object_prototype_keys then JBuiltin k else JUndefined)"

text \<open>
  The ambient environment of one process: \<^verbatim>\<open>process.env.FRONTEND_URL\<close>, the outcome of
  \<^verbatim>\<open>jwt.verify(token, process.env.JWT_SECRET)\<close> (it throws, or yields the payload, of
  which the code reads \<^verbatim>\<open>userId\<close> only), and three tables of the JavaScript runtime the
  repository does not contain: the properties of built-in objects and boxed primitives,
  \<^verbatim>\<open>Number(s)\<close> on a string, and \<^verbatim>\<open>String(v)\<close> on a date or a built-in object.
  \<open>localTZA t isUTC\<close> is the offset of the server's local time in milliseconds, as
  ECMAScript's \<^verbatim>\<open>LocalTZA(t, isUTC)\<close> reads it off the host's time zone.
\<close>

record env =
  FRONTEND_URL :: "string option"
  jwt_verify :: "string \<Rightarrow> exn + string option"
  builtin_prop :: "jsval \<Rightarrow> string \<Rightarrow> jsval"
  string_to_number :: "string \<Rightarrow> int option"
  builtin_to_string :: "jsval \<Rightarrow> string"
  localTZA :: "int \<Rightarrow> bool \<Rightarrow> int"

text \<open>
  \<^verbatim>\<open>v[k]\<close> on a receiver that is neither \<^verbatim>\<open>undefined\<close> nor \<^verbatim>\<open>null\<close>, and on any
  receiver: reading a property of \<^verbatim>\<open>undefined\<close> or \<^verbatim>\<open>null\<close> throws.
\<close>

definition js_prop :: "env \<Rightarrow> jsval \<Rightarrow> string \<Rightarrow> jsval" where
  "js_prop e v k = (case v of JObj kvs \<Rightarrow> obj_get kvs k | _ \<Rightarrow> builtin_prop e v k)"

definition js_get :: "env \<Rightarrow> jsval \<Rightarrow> string \<Rightarrow> exn + jsval" where
  "js_get e v k =
     (case v of
        JUndefined \<Rightarrow> Inl (Exn ''TypeError'' ''Cannot read properties of undefined'')
      | JNull \<Rightarrow> Inl (Exn ''TypeError'' ''Cannot read properties of null'')
      | _ \<Rightarrow> Inr (js_prop e v k))"

text \<open>\<^verbatim>\<open>ToNumber\<close>; \<open>None\<close> is \<^verbatim>\<open>NaN\<close>.\<close>

fun js_to_number :: "env \<Rightarrow> jsval \<Rightarrow> int option" where
  "js_to_number e JUndefined = None"
| "js_to_number e JNull = Some 0"
| "js_to_number e (JBool b) = Some (if b then 1 else 0)"
| "js_to_number e (JNum n) = Some n"
| "js_to_number e JNaN = None"
| "js_to_number e (JStr s) = string_to_number e s"
| "js_to_number e (JDate t) = Some t"
| "js_to_number e (JObj kvs) = None"
| "js_to_number e (JBuiltin k) = None"

fun nat_to_string :: "nat \<Rightarrow> string" where
  "nat_to_string n =
     (if n < 10 then [char_of (48 + n)]
      else nat_to_string (n div 10) @ [char_of (48 + n mod 10)])"

declare nat_to_string.simps [simp del]

definition int_to_string :: "int \<Rightarrow> string" where
  "int_to_string i =
     (if i < 0 then CHR ''-'' # nat_to_string (nat (- i)) else nat_to_string (nat i))"

text \<open>\<^verbatim>\<open>String(v)\<close>, as a template literal applies it.\<close>

fun js_to_string :: "env \<Rightarrow> jsval \<Rightarrow> string" where
  "js_to_string e JUndefined = ''undefined''"
| "js_to_string e JNull = ''null''"
| "js_to_string e (JBool b) = (if b then ''true'' else ''false'')"
| "js_to_string e (JNum n) = int_to_string n"
| "js_to_string e JNaN = ''NaN''"
| "js_to_string e (JStr s) = s"
| "js_to_string e (JDate t) = builtin_to_string e (JDate t)"
| "js_to_string e (JObj kvs) = ''[object Object]''"
| "js_to_string e (JBuiltin k) = builtin_to_string e (JBuiltin k)"

text \<open>A nullable string column or field inside a template literal or a JSON body.\<close>

definition opt_to_string :: "string option \<Rightarrow> string" where
  "opt_to_string s = (case s of None \<Rightarrow> ''null'' | Some x \<Rightarrow> x)"

definition opt_to_js :: "string option \<Rightarrow> jsval" where
  "opt_to_js s = (case s of None \<Rightarrow> JNull | Some x \<Rightarrow> JStr x)"

definition date_to_js :: "int option \<Rightarrow> jsval" where
  "date_to_js t = (case t of None \<Rightarrow> JNull | Some x \<Rightarrow> JDate x)"

definition startsWith :: "string \<Rightarrow> string \<Rightarrow> bool" where
  "startsWith s p = (take (length p) s = p)"

text \<open>\<^verbatim>\<open>c.toUpperCase()\<close> on one ASCII character.\<close>

definition toUpperCase_char :: "char \<Rightarrow> char" where
  "toUpperCase_char c =
     (let n = (of_char c :: nat) in if 97 \<le> n \<and> n \<le> 122 then char_of (n - 32) else c)"

text \<open>\<^verbatim>\<open>s.charAt(0).toUpperCase() + s.slice(1)\<close>\<close>

definition capitalize :: "string \<Rightarrow> string" where
  "capitalize s = (case s of [] \<Rightarrow> [] | c # cs \<Rightarrow> toUpperCase_char c # cs)"

text \<open>\<^verbatim>\<open>`${process.env.FRONTEND_URL}/upgrade`\<close>\<close>

definition upgradeUrl_of :: "env \<Rightarrow> string" where
  "upgradeUrl_of e =
     (case FRONTEND_URL e of None \<Rightarrow> ''undefined'' | Some u \<Rightarrow> u) @ ''/upgrade''"

subsection \<open>The durable store\<close>

text \<open>
  The columns of \<^verbatim>\<open>users\<close> that the middleware selects. The tables \<^verbatim>\<open>leads\<close> and
  \<^verbatim>\<open>properties\<close> are kept as the \<^verbatim>\<open>agency_id\<close> column of their rows, which is all the
  usage count reads. \<open>faults\<close> is the schedule of the connection pool's failures: each
  \<^verbatim>\<open>pool.query\<close> takes the head; \<open>Some e\<close> makes that query throw \<open>e\<close>.
\<close>

record user_row =
  uid :: string
  email :: string
  subscription_status :: "string option"
  trial_end_date :: "int option"
  plan_name :: "string option"
  agency_id :: "string option"

text \<open>
  The rows of the \<^verbatim>\<open>Subscription\<close> and \<^verbatim>\<open>SubscriptionPlan\<close> models and of
  \<^verbatim>\<open>agencies\<close>, with the columns the modelled code writes or reads.
\<close>

record subscription_row =
  sub_id :: string
  sub_user_id :: string
  sub_plan_id :: string
  sub_status :: string
  is_trial :: bool
  trial_start_date :: "int option"
  sub_trial_end_date :: "int option"
  current_period_start :: int
  current_period_end :: int
  amount :: int

record plan_row =
  plan_id :: string
  plan_row_name :: string
  plan_features :: jsval
  plan_max_leads :: "int option"
  plan_max_users :: "int option"
  plan_max_properties :: "int option"

record agency_row =
  agency_row_id :: string
  agency_name :: string
  agency_email :: string
  agency_status :: string
  agency_settings :: jsval

record db =
  users :: "user_row list"
  leads :: "string option list"
  properties :: "string option list"
  subscriptions :: "subscription_row list"
  subscription_plans :: "plan_row list"
  agencies :: "agency_row list"
  faults :: "exn option list"

definition next_fault :: "db \<Rightarrow> exn option \<times> db" where
  "next_fault d =
     (case faults d of [] \<Rightarrow> (None, d) | f # fs \<Rightarrow> (f, d\<lparr>faults := fs\<rparr>))"

text \<open>\<^verbatim>\<open>SELECT ... FROM users u WHERE u.id = $1\<close>; a \<^verbatim>\<open>NULL\<close> parameter matches no row.\<close>

definition select_user :: "string option \<Rightarrow> db \<Rightarrow> (exn + user_row list) \<times> db" where
  "select_user p d =
     (case next_fault d of
        (Some e, d') \<Rightarrow> (Inl e, d')
      | (None, d') \<Rightarrow> (Inr (filter (\<lambda>u. Some (uid u) = p) (users d')), d'))"

text \<open>The write itself: \<^verbatim>\<open>UPDATE users SET subscription_status = $1 WHERE id = $2\<close>.\<close>

definition set_user_status :: "string \<Rightarrow> string \<Rightarrow> user_row list \<Rightarrow> user_row list" where
  "set_user_status s i us =
     map (\<lambda>u. if uid u = i then u\<lparr>subscription_status := Some s\<rparr> else u) us"

definition update_user_status :: "string \<Rightarrow> string \<Rightarrow> db \<Rightarrow> (exn + unit) \<times> db" where
  "update_user_status s i d =
     (case next_fault d of
        (Some e, d') \<Rightarrow> (Inl e, d')
      | (None, d') \<Rightarrow> (Inr (), d'\<lparr>users := set_user_status s i (users d')\<rparr>))"

text \<open>
  \<^verbatim>\<open>SELECT COUNT(*) as count FROM ${table} WHERE agency_id = $1\<close>, then \<^verbatim>\<open>parseInt\<close> of
  the count. The table name is spliced into the statement: a value that is not one of the
  three table names gives a statement the store rejects.
\<close>

definition count_rows :: "string option \<Rightarrow> string option list \<Rightarrow> int" where
  "count_rows a col = int (length (filter (\<lambda>x. x \<noteq> None \<and> x = a) col))"

definition count_query :: "jsval \<Rightarrow> string option \<Rightarrow> db \<Rightarrow> (exn + int) \<times> db" where
  "count_query table a d =
     (case next_fault d of
        (Some e, d') \<Rightarrow> (Inl e, d')
      | (None, d') \<Rightarrow>
          (if table = JStr ''leads'' then Inr (count_rows a (leads d'))
           else if table = JStr ''users'' then Inr (count_rows a (map agency_id (users d')))
           else if table = JStr ''properties'' then Inr (count_rows a (properties d'))
           else Inl (Exn ''error'' ''syntax error in the statement''), d'))"

subsection \<open>Requests, responses and the outcome of a middleware\<close>

text \<open>
  The JSON body every denial sends: \<^verbatim>\<open>{success, message, code?, data?}\<close>, with the HTTP
  status it is sent under.
\<close>

record response =
  http_status :: nat
  success :: bool
  message :: string
  code :: "string option"
  data :: "(string \<times> jsval) list option"

text \<open>\<^verbatim>\<open>req.subscription\<close>, attached by \<^verbatim>\<open>checkSubscriptionStatus\<close>.\<close>

record subscription_info =
  userId :: string
  agencyId :: "string option"
  status :: "string option"
  planName :: "string option"
  features :: jsval
  limits :: "(string \<times> jsval) list"
  trialEndDate :: "int option"
  isActive :: bool

text \<open>\<^verbatim>\<open>req.usage[resourceType]\<close> and \<^verbatim>\<open>req.trialInfo\<close>.\<close>

record usage_info =
  usage_current :: int
  usage_max :: jsval
  usage_remaining :: jsval

record trial_info =
  daysRemaining :: int
  endDate :: int
  isExpiringSoon :: bool
  upgradeUrl :: string

record request =
  path :: string
  authorization :: "string option"
  subscription :: "subscription_info option"
  usage :: "string \<rightharpoonup> usage_info"
  trialInfo :: "trial_info option"

text \<open>
  A middleware either calls \<^verbatim>\<open>next()\<close>, handing the (annotated) request to the downstream
  handler, or ends the request with a response.
\<close>

datatype outcome = Next request | Respond response

definition deny :: "nat \<Rightarrow> string \<Rightarrow> string option \<Rightarrow> (string \<times> jsval) list option \<Rightarrow> outcome" where
  "deny st msg c dat =
     Respond \<lparr>http_status = st, success = False, message = msg, code = c, data = dat\<rparr>"

subsection \<open>checkSubscriptionStatus\<close>

definition skipRoutes :: "string list" where
  "skipRoutes = [''/api/auth/'', ''/api/subscription/upgrade'', ''/api/subscription/status'']"

definition starter_features :: "(string \<times> jsval) list" where
  "starter_features =
     [(''whatsapp'', JBool False), (''analytics'', JStr ''basic''),
      (''branding'', JStr ''none''), (''api_access'', JBool False),
      (''max_leads'', JNum 1000), (''max_users'', JNum 3), (''max_properties'', JNum 100)]"

definition pro_features :: "(string \<times> jsval) list" where
  "pro_features =
     [(''whatsapp'', JBool True), (''analytics'', JStr ''advanced''),
      (''branding'', JStr ''basic''), (''api_access'', JBool True),
      (''max_leads'', JNum 5000), (''max_users'', JNum 10), (''max_properties'', JNum 500)]"

definition agency_features :: "(string \<times> jsval) list" where
  "agency_features =
     [(''whatsapp'', JBool True), (''analytics'', JStr ''enterprise''),
      (''branding'', JStr ''full''), (''api_access'', JBool True),
      (''max_leads'', JNull), (''max_users'', JNull), (''max_properties'', JNull)]"

definition planFeatures :: "(string \<times> jsval) list" where
  "planFeatures =
     [(''starter'', JObj starter_features), (''pro'', JObj pro_features),
      (''agency'', JObj agency_features)]"

text \<open>\<^verbatim>\<open>planFeatures[user.plan_name] || planFeatures.starter\<close>\<close>

definition resolve_features :: "string option \<Rightarrow> jsval" where
  "resolve_features pn =
     (let f = obj_get planFeatures (opt_to_string pn)
      in if truthy f then f else obj_get planFeatures ''starter'')"

text \<open>\<^verbatim>\<open>['trial', 'active'].includes(subscriptionStatus)\<close>\<close>

definition is_active_status :: "string option \<Rightarrow> bool" where
  "is_active_status s = (s = Some ''trial'' \<or> s = Some ''active'')"

text \<open>
  The part of the \<^verbatim>\<open>try\<close> block after the user row is read. \<open>now\<close> is the value of
  \<^verbatim>\<open>new Date()\<close>. \<open>user\<close> is the row as it was read and \<open>d\<close> the store the
  \<^verbatim>\<open>UPDATE\<close> reaches: the handler is suspended at each \<^verbatim>\<open>await\<close>, so other requests
  may have written in between. \<^verbatim>\<open>features\<close> is never \<^verbatim>\<open>undefined\<close> or \<^verbatim>\<open>null\<close> (the
  \<^verbatim>\<open>||\<close> falls back to an object literal), so reading its properties does not throw.
\<close>

definition css_decide :: "env \<Rightarrow> int \<Rightarrow> request \<Rightarrow> user_row \<Rightarrow> db \<Rightarrow> (exn + outcome) \<times> db" where
  "css_decide e now req user d =
     (let trialEnd = trial_end_date user;
          subscriptionStatus = subscription_status user;
          expired = (case trialEnd of
                       None \<Rightarrow> False
                     | Some endD \<Rightarrow> subscriptionStatus = Some ''trial'' \<and> now > endD)
      in if expired then
           (case update_user_status ''expired'' (uid user) d of
              (Inl x, d') \<Rightarrow> (Inl x, d')
            | (Inr u, d') \<Rightarrow>
                (Inr (deny 402
                   ''Your free trial has expired. Please upgrade to continue using LeadEstate.''
                   (Some ''TRIAL_EXPIRED'')
                   (Some [(''trialEndDate'', date_to_js trialEnd),
                          (''upgradeUrl'', JStr (upgradeUrl_of e))])), d'))
         else if \<not> is_active_status subscriptionStatus then
           (Inr (deny 402 ''Your subscription is not active. Please upgrade to continue.''
              (Some ''SUBSCRIPTION_INACTIVE'')
              (Some [(''status'', opt_to_js subscriptionStatus),
                     (''upgradeUrl'', JStr (upgradeUrl_of e))])), d)
         else
           (let feats = resolve_features (plan_name user) in
            (Inr (Next (req\<lparr>subscription := Some
               \<lparr>userId = uid user, agencyId = agency_id user,
                status = subscriptionStatus, planName = plan_name user,
                features = feats,
                limits = [(''maxLeads'', js_prop e feats ''max_leads''),
                          (''maxUsers'', js_prop e feats ''max_users''),
                          (''maxProperties'', js_prop e feats ''max_properties'')],
                trialEndDate = trialEnd,
                isActive = is_active_status subscriptionStatus\<rparr>\<rparr>)), d)))"

text \<open>\<^verbatim>\<open>authHeader.startsWith('Bearer ') ? authHeader.slice(7) : authHeader\<close>\<close>

definition bearer_token :: "string \<Rightarrow> string" where
  "bearer_token authHeader =
     (if startsWith authHeader ''Bearer '' then drop 7 authHeader else authHeader)"

text \<open>The \<^verbatim>\<open>try\<close> block: \<open>Inl\<close> is an exception on its way to the \<^verbatim>\<open>catch\<close>.\<close>

definition css_try :: "env \<Rightarrow> int \<Rightarrow> request \<Rightarrow> db \<Rightarrow> (exn + outcome) \<times> db" where
  "css_try e now req d =
     (if list_ex (startsWith (path req)) skipRoutes then (Inr (Next req), d)
      else case authorization req of
        None \<Rightarrow> (Inr (deny 401 ''Access denied. No token provided.'' (Some ''NO_TOKEN'') None), d)
      | Some authHeader \<Rightarrow>
          if authHeader = [] then
            (Inr (deny 401 ''Access denied. No token provided.'' (Some ''NO_TOKEN'') None), d)
          else
            (case jwt_verify e (bearer_token authHeader) of
               Inl x \<Rightarrow> (Inl x, d)
             | Inr decoded_userId \<Rightarrow>
                 (case select_user decoded_userId d of
                    (Inl x, d') \<Rightarrow> (Inl x, d')
                  | (Inr rows, d') \<Rightarrow>
                      (case rows of
                         [] \<Rightarrow> (Inr (deny 404 ''User not found'' (Some ''USER_NOT_FOUND'') None), d')
                       | user # rest \<Rightarrow> css_decide e now req user d'))))"

definition is_auth_error :: "exn \<Rightarrow> bool" where
  "is_auth_error x = (err_name x = ''JsonWebTokenError'' \<or> err_name x = ''TokenExpiredError'')"

text \<open>The middleware: the \<^verbatim>\<open>try\<close> block under its \<^verbatim>\<open>catch\<close>.\<close>

definition checkSubscriptionStatus :: "env \<Rightarrow> int \<Rightarrow> request \<Rightarrow> db \<Rightarrow> outcome \<times> db" where
  "checkSubscriptionStatus e now req d =
     (case css_try e now req d of
        (Inr out, d') \<Rightarrow> (out, d')
      | (Inl x, d') \<Rightarrow>
          (if is_auth_error x
           then deny 401 ''Invalid or expired token'' (Some ''INVALID_TOKEN'') None
           else deny 500 ''Failed to verify subscription status'' None None, d'))"

subsection \<open>requireFeature\<close>

text \<open>
  \<^verbatim>\<open>features[featureName] === true || (typeof features[featureName] === 'string' &&
  features[featureName] !== 'none')\<close>, on the value read.
\<close>

definition feature_enabled :: "jsval \<Rightarrow> bool" where
  "feature_enabled v = (v = JBool True \<or> (case v of JStr s \<Rightarrow> s \<noteq> ''none'' | _ \<Rightarrow> False))"

definition requireFeature :: "string \<Rightarrow> env \<Rightarrow> request \<Rightarrow> outcome" where
  "requireFeature featureName e req =
     (case subscription req of
        None \<Rightarrow> deny 401 ''Subscription information not available''
                  (Some ''NO_SUBSCRIPTION_INFO'') None
      | Some sub \<Rightarrow>
          (case js_get e (features sub) featureName of
             Inl x \<Rightarrow> deny 500 ''Failed to verify feature access'' None None
           | Inr v \<Rightarrow>
               if \<not> feature_enabled v then
                 deny 403
                   (''This feature requires a higher subscription plan. Current plan: ''
                      @ opt_to_string (planName sub))
                   (Some ''FEATURE_NOT_AVAILABLE'')
                   (Some [(''feature'', JStr featureName),
                          (''currentPlan'', opt_to_js (planName sub)),
                          (''upgradeUrl'', JStr (upgradeUrl_of e))])
               else Next req))"

subsection \<open>checkUsageLimit\<close>

definition tableMap :: "(string \<times> jsval) list" where
  "tableMap = [(''leads'', JStr ''leads''), (''users'', JStr ''users''),
               (''properties'', JStr ''properties'')]"

text \<open>\<^verbatim>\<open>currentCount >= maxAllowed\<close> and \<^verbatim>\<open>maxAllowed - currentCount\<close>\<close>

definition js_ge :: "env \<Rightarrow> int \<Rightarrow> jsval \<Rightarrow> bool" where
  "js_ge e c v = (case js_to_number e v of None \<Rightarrow> False | Some m \<Rightarrow> c \<ge> m)"

definition js_minus :: "env \<Rightarrow> jsval \<Rightarrow> int \<Rightarrow> jsval" where
  "js_minus e v c = (case js_to_number e v of None \<Rightarrow> JNaN | Some m \<Rightarrow> JNum (m - c))"

definition cul_try :: "string \<Rightarrow> env \<Rightarrow> request \<Rightarrow> db \<Rightarrow> (exn + outcome) \<times> db" where
  "cul_try resourceType e req d =
     (case subscription req of
        None \<Rightarrow> (Inr (deny 401 ''Subscription information not available'' None None), d)
      | Some sub \<Rightarrow>
          (let limitKey = ''max'' @ capitalize resourceType;
               maxAllowed = obj_get (limits sub) limitKey
           in if maxAllowed = JNull then (Inr (Next req), d)
              else
                (let table = obj_get tableMap resourceType
                 in if \<not> truthy table then
                      (Inr (deny 400 ''Invalid resource type'' None None), d)
                    else
                      (case count_query table (agencyId sub) d of
                         (Inl x, d') \<Rightarrow> (Inl x, d')
                       | (Inr currentCount, d') \<Rightarrow>
                           if js_ge e currentCount maxAllowed then
                             (Inr (deny 403
                                (''You have reached your '' @ resourceType @ '' limit (''
                                   @ js_to_string e maxAllowed
                                   @ ''). Please upgrade your plan.'')
                                (Some ''USAGE_LIMIT_EXCEEDED'')
                                (Some [(''resourceType'', JStr resourceType),
                                       (''currentCount'', JNum currentCount),
                                       (''maxAllowed'', maxAllowed),
                                       (''upgradeUrl'', JStr (upgradeUrl_of e))])), d')
                           else
                             (Inr (Next (req\<lparr>usage := (usage req)(resourceType \<mapsto>
                                \<lparr>usage_current = currentCount, usage_max = maxAllowed,
                                 usage_remaining = js_minus e maxAllowed currentCount\<rparr>)\<rparr>)),
                              d')))))"

definition checkUsageLimit :: "string \<Rightarrow> env \<Rightarrow> request \<Rightarrow> db \<Rightarrow> outcome \<times> db" where
  "checkUsageLimit resourceType e req d =
     (case cul_try resourceType e req d of
        (Inr out, d') \<Rightarrow> (out, d')
      | (Inl x, d') \<Rightarrow> (deny 500 ''Failed to verify usage limits'' None None, d'))"

subsection \<open>addTrialInfo\<close>

text \<open>\<^verbatim>\<open>Math.ceil(diffTime / (1000 * 60 * 60 * 24))\<close> on integers.\<close>

definition msPerDay :: int where
  "msPerDay = 1000 * 60 * 60 * 24"

definition ceil_days :: "int \<Rightarrow> int" where
  "ceil_days diffTime = - ((- diffTime) div msPerDay)"

definition addTrialInfo :: "env \<Rightarrow> int \<Rightarrow> request \<Rightarrow> outcome" where
  "addTrialInfo e now req =
     (case subscription req of
        None \<Rightarrow> Next req
      | Some sub \<Rightarrow>
          (case trialEndDate sub of
             None \<Rightarrow> Next req
           | Some endD \<Rightarrow>
               if status sub = Some ''trial'' then
                 (let diffTime = endD - now;
                      days = ceil_days diffTime
                  in Next (req\<lparr>trialInfo := Some
                       \<lparr>daysRemaining = max 0 days, endDate = endD,
                        isExpiringSoon = (days \<le> 3), upgradeUrl = upgradeUrl_of e\<rparr>\<rparr>))
               else Next req))"

text \<open>
  The leads index route chains the two: \<^verbatim>\<open>router.get('/', checkSubscriptionStatus,
  addTrialInfo, ...)\<close>. Each middleware reads the clock itself.
\<close>

definition leads_index_gate :: "env \<Rightarrow> int \<Rightarrow> int \<Rightarrow> request \<Rightarrow> db \<Rightarrow> outcome \<times> db" where
  "leads_index_gate e now now' req d =
     (case checkSubscriptionStatus e now req d of
        (Next r, d') \<Rightarrow> (addTrialInfo e now' r, d')
      | (Respond x, d') \<Rightarrow> (Respond x, d'))"

subsection \<open>The plan model's feature test\<close>

text \<open>
  \<^verbatim>\<open>SubscriptionPlan.prototype.hasFeature\<close>:
  \<^verbatim>\<open>this.features && this.features[featureName] === true\<close>. The result of \<^verbatim>\<open>&&\<close> is
  its left operand when that is falsy.
\<close>

definition hasFeature :: "env \<Rightarrow> jsval \<Rightarrow> string \<Rightarrow> jsval" where
  "hasFeature e feats featureName =
     (if truthy feats then JBool (js_prop e feats featureName = JBool True) else feats)"

subsection \<open>Other writers of the subscription status\<close>

text \<open>
  The variant of \<^verbatim>\<open>checkSubscriptionStatus\<close> that joins \<^verbatim>\<open>subscriptions\<close> writes twice
  on the expiry path: \<^verbatim>\<open>UPDATE users SET subscription_status = $1 WHERE id = $2\<close> and,
  when the row carries a \<^verbatim>\<open>subscription_id\<close>,
  \<^verbatim>\<open>UPDATE subscriptions SET status = $1 WHERE id = $2\<close>.
\<close>

definition set_subscription_status ::
    "string \<Rightarrow> string \<Rightarrow> subscription_row list \<Rightarrow> subscription_row list" where
  "set_subscription_status s i ss =
     map (\<lambda>r. if sub_id r = i then r\<lparr>sub_status := s\<rparr> else r) ss"

definition update_subscription_status :: "string \<Rightarrow> string \<Rightarrow> db \<Rightarrow> (exn + unit) \<times> db" where
  "update_subscription_status s i d =
     (case next_fault d of
        (Some x, d') \<Rightarrow> (Inl x, d')
      | (None, d') \<Rightarrow>
          (Inr (), d'\<lparr>subscriptions := set_subscription_status s i (subscriptions d')\<rparr>))"

definition expire_joined :: "string \<Rightarrow> string option \<Rightarrow> db \<Rightarrow> (exn + unit) \<times> db" where
  "expire_joined user_id subscription_id d =
     (case update_user_status ''expired'' user_id d of
        (Inl x, d') \<Rightarrow> (Inl x, d')
      | (Inr u, d') \<Rightarrow>
          (case subscription_id of
             None \<Rightarrow> (Inr (), d')
           | Some sid \<Rightarrow>
               if sid = [] then (Inr (), d')
               else update_subscription_status ''expired'' sid d'))"

text \<open>
  The joining variant in full. Its query is \<^verbatim>\<open>SELECT ... FROM users u LEFT JOIN
  subscriptions s ON u.id = s.user_id AND s.status IN ('trial', 'active') LEFT JOIN
  subscription_plans sp ON s.plan_id = sp.id WHERE u.id = $1\<close>. A row of the result is a
  user row with the subscription and the plan joined to it, each absent (all its columns
  \<^verbatim>\<open>NULL\<close>) when nothing joins. The query has no \<^verbatim>\<open>ORDER BY\<close>; the rows come in
  the order of the tables.
\<close>

type_synonym joined_row = "user_row \<times> subscription_row option \<times> plan_row option"

definition join_plans :: "db \<Rightarrow> user_row \<Rightarrow> subscription_row \<Rightarrow> joined_row list" where
  "join_plans d u s =
     (let ps = filter (\<lambda>p. plan_id p = sub_plan_id s) (subscription_plans d)
      in if ps = [] then [(u, Some s, None)] else map (\<lambda>p. (u, Some s, Some p)) ps)"

definition join_rows :: "db \<Rightarrow> user_row \<Rightarrow> joined_row list" where
  "join_rows d u =
     (let ss = filter (\<lambda>s. sub_user_id s = uid u
                           \<and> (sub_status s = ''trial'' \<or> sub_status s = ''active''))
                 (subscriptions d)
      in if ss = [] then [(u, None, None)] else concat (map (join_plans d u) ss))"

definition select_joined :: "string option \<Rightarrow> db \<Rightarrow> (exn + joined_row list) \<times> db" where
  "select_joined p d =
     (case next_fault d of
        (Some x, d') \<Rightarrow> (Inl x, d')
      | (None, d') \<Rightarrow>
          (Inr (concat (map (join_rows d') (filter (\<lambda>u. Some (uid u) = p) (users d')))), d'))"

text \<open>
  The columns of a joined row that the middleware reads: \<^verbatim>\<open>subscription_id\<close>,
  \<^verbatim>\<open>user.sub_trial_end || user.trial_end_date\<close>,
  \<^verbatim>\<open>user.sub_status || user.subscription_status\<close>, \<^verbatim>\<open>user.features || {}\<close> and the
  three limits.
\<close>

definition joined_subscription_id :: "joined_row \<Rightarrow> string option" where
  "joined_subscription_id jr = (case jr of (u, s, sp) \<Rightarrow> map_option sub_id s)"

definition joined_trialEndDate :: "joined_row \<Rightarrow> int option" where
  "joined_trialEndDate jr =
     (case jr of (u, s, sp) \<Rightarrow>
        (case (case s of None \<Rightarrow> None | Some r \<Rightarrow> sub_trial_end_date r) of
           Some t \<Rightarrow> Some t
         | None \<Rightarrow> trial_end_date u))"

definition joined_status :: "joined_row \<Rightarrow> string option" where
  "joined_status jr =
     (case jr of (u, s, sp) \<Rightarrow>
        (case s of
           None \<Rightarrow> subscription_status u
         | Some r \<Rightarrow> if sub_status r \<noteq> [] then Some (sub_status r) else subscription_status u))"

definition joined_features :: "joined_row \<Rightarrow> jsval" where
  "joined_features jr =
     (case jr of (u, s, sp) \<Rightarrow>
        (let f = (case sp of None \<Rightarrow> JNull | Some p \<Rightarrow> plan_features p)
         in if truthy f then f else JObj []))"

definition limit_to_js :: "int option \<Rightarrow> jsval" where
  "limit_to_js l = (case l of None \<Rightarrow> JNull | Some n \<Rightarrow> JNum n)"

definition joined_limits :: "joined_row \<Rightarrow> (string \<times> jsval) list" where
  "joined_limits jr =
     (case jr of (u, s, sp) \<Rightarrow>
        (case sp of
           None \<Rightarrow> [(''maxLeads'', JNull), (''maxUsers'', JNull), (''maxProperties'', JNull)]
         | Some p \<Rightarrow>
             [(''maxLeads'', limit_to_js (plan_max_leads p)),
              (''maxUsers'', limit_to_js (plan_max_users p)),
              (''maxProperties'', limit_to_js (plan_max_properties p))]))"

text \<open>
  The part of the joining variant's \<^verbatim>\<open>try\<close> block after the row is read; \<open>jr\<close> is the
  row as it was read and \<open>d\<close> the store the two \<^verbatim>\<open>UPDATE\<close>s reach. The object it
  attaches has no \<^verbatim>\<open>agencyId\<close>.
\<close>

definition css_decide_joined ::
    "env \<Rightarrow> int \<Rightarrow> request \<Rightarrow> joined_row \<Rightarrow> db \<Rightarrow> (exn + outcome) \<times> db" where
  "css_decide_joined e now req jr d =
     (let trialEnd = joined_trialEndDate jr;
          subscriptionStatus = joined_status jr;
          expired = (case trialEnd of
                       None \<Rightarrow> False
                     | Some endD \<Rightarrow> subscriptionStatus = Some ''trial'' \<and> now > endD)
      in if expired then
           (case expire_joined (uid (fst jr)) (joined_subscription_id jr) d of
              (Inl x, d') \<Rightarrow> (Inl x, d')
            | (Inr u, d') \<Rightarrow>
                (Inr (deny 402
                   ''Your free trial has expired. Please upgrade to continue using LeadEstate.''
                   (Some ''TRIAL_EXPIRED'')
                   (Some [(''trialEndDate'', date_to_js trialEnd),
                          (''upgradeUrl'', JStr (upgradeUrl_of e))])), d'))
         else if \<not> is_active_status subscriptionStatus then
           (Inr (deny 402 ''Your subscription is not active. Please upgrade to continue.''
              (Some ''SUBSCRIPTION_INACTIVE'')
              (Some [(''status'', opt_to_js subscriptionStatus),
                     (''upgradeUrl'', JStr (upgradeUrl_of e))])), d)
         else
           (Inr (Next (req\<lparr>subscription := Some
              \<lparr>userId = uid (fst jr), agencyId = None,
               status = subscriptionStatus, planName = plan_name (fst jr),
               features = joined_features jr,
               limits = joined_limits jr,
               trialEndDate = trialEnd,
               isActive = is_active_status subscriptionStatus\<rparr>\<rparr>)), d))"

definition css_try_joined :: "env \<Rightarrow> int \<Rightarrow> request \<Rightarrow> db \<Rightarrow> (exn + outcome) \<times> db" where
  "css_try_joined e now req d =
     (if list_ex (startsWith (path req)) skipRoutes then (Inr (Next req), d)
      else case authorization req of
        None \<Rightarrow> (Inr (deny 401 ''Access denied. No token provided.'' (Some ''NO_TOKEN'') None), d)
      | Some authHeader \<Rightarrow>
          if authHeader = [] then
            (Inr (deny 401 ''Access denied. No token provided.'' (Some ''NO_TOKEN'') None), d)
          else
            (case jwt_verify e (bearer_token authHeader) of
               Inl x \<Rightarrow> (Inl x, d)
             | Inr decoded_userId \<Rightarrow>
                 (case select_joined decoded_userId d of
                    (Inl x, d') \<Rightarrow> (Inl x, d')
                  | (Inr rows, d') \<Rightarrow>
                      (case rows of
                         [] \<Rightarrow> (Inr (deny 404 ''User not found'' (Some ''USER_NOT_FOUND'') None), d')
                       | user # rest \<Rightarrow> css_decide_joined e now req user d'))))"

definition checkSubscriptionStatus_joined ::
    "env \<Rightarrow> int \<Rightarrow> request \<Rightarrow> db \<Rightarrow> outcome \<times> db" where
  "checkSubscriptionStatus_joined e now req d =
     (case css_try_joined e now req d of
        (Inr out, d') \<Rightarrow> (out, d')
      | (Inl x, d') \<Rightarrow>
          (if is_auth_error x
           then deny 401 ''Invalid or expired token'' (Some ''INVALID_TOKEN'') None
           else deny 500 ''Failed to verify subscription status'' None None, d'))"

text \<open>
  The upgrade route's write to \<^verbatim>\<open>users\<close>: \<^verbatim>\<open>UPDATE users SET subscription_status =
  'active', plan_name = $1, trial_end_date = NULL WHERE id = $2\<close>.
\<close>

definition upgrade_user :: "string \<Rightarrow> string \<Rightarrow> user_row list \<Rightarrow> user_row list" where
  "upgrade_user pn i us =
     map (\<lambda>u. if uid u = i
              then u\<lparr>subscription_status := Some ''active'', plan_name := Some pn,
                     trial_end_date := None\<rparr>
              else u) us"

subsection \<open>Creating a trial\<close>

text \<open>
  \<^verbatim>\<open>d.setDate(d.getDate() + n)\<close> on the date with time value \<open>t\<close>: the local time is
  moved by \<open>n\<close> calendar days, the time within the day kept, and the result read back
  as a time value.
\<close>

definition setDate_plus :: "env \<Rightarrow> int \<Rightarrow> int \<Rightarrow> int" where
  "setDate_plus e t n =
     (let local = t + localTZA e t True;
          moved = local + n * msPerDay
      in moved - localTZA e moved False)"

text \<open>
  \<^verbatim>\<open>POST /api/auth/trial-signup\<close>. \<open>validation_failed\<close> is what express-validator found;
  \<open>signup_io\<close> holds what \<^verbatim>\<open>crypto.randomUUID()\<close> (twice) and \<^verbatim>\<open>jwt.sign\<close> returned.
  \<open>now\<close> and \<open>now'\<close> are the two readings of the clock. The \<^verbatim>\<open>errors\<close> array of the
  400 response and the password hash are left out: no column of \<open>user_row\<close> holds them.
\<close>

record signup_request =
  su_email :: string
  su_password :: string
  su_firstName :: string
  su_lastName :: string
  su_companyName :: "string option"
  validation_failed :: bool

record signup_io =
  new_agency_id :: string
  new_user_id :: string
  signed_token :: string

text \<open>\<^verbatim>\<open>SELECT id, email, subscription_status FROM users WHERE email = $1\<close>\<close>

definition select_by_email :: "string \<Rightarrow> db \<Rightarrow> (exn + user_row list) \<times> db" where
  "select_by_email em d =
     (case next_fault d of
        (Some x, d') \<Rightarrow> (Inl x, d')
      | (None, d') \<Rightarrow> (Inr (filter (\<lambda>u. email u = em) (users d')), d'))"

text \<open>\<^verbatim>\<open>INSERT INTO users ... RETURNING ...\<close>; \<^verbatim>\<open>id\<close> is the primary key.\<close>

definition insert_user :: "user_row \<Rightarrow> db \<Rightarrow> (exn + user_row) \<times> db" where
  "insert_user u d =
     (case next_fault d of
        (Some x, d') \<Rightarrow> (Inl x, d')
      | (None, d') \<Rightarrow>
          if list_ex (\<lambda>r. uid r = uid u) (users d')
          then (Inl (Exn ''error'' ''duplicate key value violates unique constraint''), d')
          else (Inr u, d'\<lparr>users := users d' @ [u]\<rparr>))"

definition insert_agency :: "agency_row \<Rightarrow> db \<Rightarrow> (exn + unit) \<times> db" where
  "insert_agency a d =
     (case next_fault d of
        (Some x, d') \<Rightarrow> (Inl x, d')
      | (None, d') \<Rightarrow>
          if list_ex (\<lambda>r. agency_row_id r = agency_row_id a) (agencies d')
          then (Inl (Exn ''error'' ''duplicate key value violates unique constraint''), d')
          else (Inr (), d'\<lparr>agencies := agencies d' @ [a]\<rparr>))"

definition trial_plan_features :: "(string \<times> jsval) list" where
  "trial_plan_features =
     [(''whatsapp'', JBool False), (''analytics'', JStr ''basic''),
      (''branding'', JStr ''none''), (''api_access'', JBool False)]"

definition signup_try ::
    "env \<Rightarrow> int \<Rightarrow> int \<Rightarrow> signup_io \<Rightarrow> signup_request \<Rightarrow> db \<Rightarrow> (exn + response) \<times> db" where
  "signup_try e now now' io body d =
     (if validation_failed body then
        (Inr \<lparr>http_status = 400, success = False, message = ''Validation failed'',
              code = None, data = None\<rparr>, d)
      else
        (case select_by_email (su_email body) d of
           (Inl x, d1) \<Rightarrow> (Inl x, d1)
         | (Inr (existingUser # rest), d1) \<Rightarrow>
             if subscription_status existingUser = Some ''expired'' then
               (Inr \<lparr>http_status = 409, success = False,
                     message = ''Account exists but trial expired. Please contact support to reactivate.'',
                     code = Some ''TRIAL_EXPIRED'', data = None\<rparr>, d1)
             else
               (Inr \<lparr>http_status = 409, success = False,
                     message = ''An account with this email already exists'',
                     code = Some ''EMAIL_EXISTS'', data = None\<rparr>, d1)
         | (Inr [], d1) \<Rightarrow>
             (let agencyId = new_agency_id io;
                  userId = new_user_id io;
                  trialEndDate = setDate_plus e now 14
              in case insert_user
                        \<lparr>uid = userId, email = su_email body,
                         subscription_status = Some ''trial'',
                         trial_end_date = Some trialEndDate,
                         plan_name = Some ''starter'', agency_id = Some agencyId\<rparr> d1 of
                   (Inl x, d2) \<Rightarrow> (Inl x, d2)
                 | (Inr newUser, d2) \<Rightarrow>
                     (case insert_agency
                        \<lparr>agency_row_id = agencyId,
                         agency_name =
                           (case su_companyName body of
                              None \<Rightarrow> su_firstName body @ '' '' @ su_lastName body
                                        @ [CHR 0x27] @ ''s Agency''
                            | Some c \<Rightarrow>
                                if c = [] then su_firstName body @ '' '' @ su_lastName body
                                                 @ [CHR 0x27] @ ''s Agency''
                                else c),
                         agency_email = su_email body, agency_status = ''active'',
                         agency_settings =
                           JObj [(''trial'', JBool True), (''plan'', JStr ''starter''),
                                 (''features'', JObj trial_plan_features)]\<rparr> d2 of
                        (Inl x, d3) \<Rightarrow> (Inl x, d3)
                      | (Inr u, d3) \<Rightarrow>
                          (Inr \<lparr>http_status = 201, success = True,
                                message = ''Trial account created successfully'',
                                code = None,
                                data = Some
                                  [(''user'', JObj
                                      [(''id'', JStr (uid newUser)),
                                       (''email'', JStr (email newUser)),
                                       (''firstName'', JStr (su_firstName body)),
                                       (''lastName'', JStr (su_lastName body)),
                                       (''role'', JStr ''manager''),
                                       (''agencyId'', opt_to_js (agency_id newUser))]),
                                   (''subscription'', JObj
                                      [(''status'', JStr ''trial''),
                                       (''plan'', JStr ''starter''),
                                       (''trialEndDate'', JDate trialEndDate),
                                       (''daysRemaining'',
                                          JNum (ceil_days (trialEndDate - now'))),
                                       (''features'', JObj trial_plan_features)]),
                                   (''token'', JStr (signed_token io))]\<rparr>, d3)))))"

definition trial_signup ::
    "env \<Rightarrow> int \<Rightarrow> int \<Rightarrow> signup_io \<Rightarrow> signup_request \<Rightarrow> db \<Rightarrow> response \<times> db" where
  "trial_signup e now now' io body d =
     (case signup_try e now now' io body d of
        (Inr r, d') \<Rightarrow> (r, d')
      | (Inl x, d') \<Rightarrow>
          (\<lparr>http_status = 500, success = False,
            message = ''Failed to create trial account. Please try again.'',
            code = None, data = None\<rparr>, d'))"

text \<open>
  \<^verbatim>\<open>Subscription.createTrial(userId, planId = null)\<close> of the Sequelize model. \<open>new_id\<close> is
  the generated primary key. Reading \<^verbatim>\<open>starterPlan.id\<close> throws when no plan is named
  \<^verbatim>\<open>starter\<close>; nothing here catches. The two \<^verbatim>\<open>new Date()\<close> of the body are read
  at the one instant \<open>now\<close>.
\<close>

definition find_plan_by_name :: "string \<Rightarrow> db \<Rightarrow> (exn + plan_row option) \<times> db" where
  "find_plan_by_name n d =
     (case next_fault d of
        (Some x, d') \<Rightarrow> (Inl x, d')
      | (None, d') \<Rightarrow> (Inr (find (\<lambda>p. plan_row_name p = n) (subscription_plans d')), d'))"

definition create_subscription_row :: "subscription_row \<Rightarrow> db \<Rightarrow> (exn + subscription_row) \<times> db" where
  "create_subscription_row r d =
     (case next_fault d of
        (Some x, d') \<Rightarrow> (Inl x, d')
      | (None, d') \<Rightarrow>
          if list_ex (\<lambda>q. sub_id q = sub_id r) (subscriptions d')
          then (Inl (Exn ''SequelizeUniqueConstraintError'' ''Validation error''), d')
          else (Inr r, d'\<lparr>subscriptions := subscriptions d' @ [r]\<rparr>))"

definition starter_plan_id :: "db \<Rightarrow> (exn + string) \<times> db" where
  "starter_plan_id d =
     (case find_plan_by_name ''starter'' d of
        (Inl x, d') \<Rightarrow> (Inl x, d')
      | (Inr None, d') \<Rightarrow> (Inl (Exn ''TypeError'' ''Cannot read properties of null''), d')
      | (Inr (Some starterPlan), d') \<Rightarrow> (Inr (plan_id starterPlan), d'))"

definition createTrial ::
    "env \<Rightarrow> int \<Rightarrow> string \<Rightarrow> string \<Rightarrow> string option \<Rightarrow> db \<Rightarrow> (exn + subscription_row) \<times> db" where
  "createTrial e now new_id userId' planId d =
     (case (case planId of
              None \<Rightarrow> starter_plan_id d
            | Some p \<Rightarrow> if p = [] then starter_plan_id d else (Inr p, d)) of
        (Inl x, d') \<Rightarrow> (Inl x, d')
      | (Inr pid, d') \<Rightarrow>
          (let trialStartDate = now;
               trialEndDate = setDate_plus e now 14
           in create_subscription_row
                \<lparr>sub_id = new_id, sub_user_id = userId', sub_plan_id = pid,
                 sub_status = ''trial'', is_trial = True,
                 trial_start_date = Some trialStartDate,
                 sub_trial_end_date = Some trialEndDate,
                 current_period_start = trialStartDate,
                 current_period_end = trialEndDate, amount = 0\<rparr> d'))"

text \<open>\<^verbatim>\<open>Subscription.prototype.isTrialExpired\<close> and \<^verbatim>\<open>getDaysRemaining\<close>\<close>

definition isTrialExpired :: "int \<Rightarrow> subscription_row \<Rightarrow> bool" where
  "isTrialExpired now r =
     (case sub_trial_end_date r of
        None \<Rightarrow> False
      | Some endD \<Rightarrow> if \<not> is_trial r then False else now > endD)"

definition getDaysRemaining :: "int \<Rightarrow> subscription_row \<Rightarrow> int" where
  "getDaysRemaining now r =
     (case sub_trial_end_date r of
        None \<Rightarrow> 0
      | Some endD \<Rightarrow> if \<not> is_trial r then 0 else max 0 (ceil_days (endD - now)))"

subsection \<open>The subscription service\<close>

text \<open>
  \<^verbatim>\<open>services/subscriptionService.js\<close>: its own plan list and its own rows, newest first
  (\<^verbatim>\<open>order: [['created_at', 'DESC']]\<close>). The JSON text of \<^verbatim>\<open>features\<close> and
  \<^verbatim>\<open>limits\<close> is kept as the value it encodes.
\<close>

record svc_plan =
  sp_id :: string
  sp_name :: string
  sp_price :: int
  sp_currency :: string
  sp_interval :: string
  sp_features :: "string list"
  sp_limits :: "(string \<times> int) list"

definition svc_plans :: "svc_plan list" where
  "svc_plans =
     [\<lparr>sp_id = ''starter'', sp_name = ''Starter Plan'', sp_price = 29, sp_currency = ''USD'',
       sp_interval = ''month'',
       sp_features = [''Up to 50 leads'', ''Basic CRM features'', ''Email support'',
                      ''1 user account''],
       sp_limits = [(''leads'', 50), (''users'', 1), (''properties'', 20)]\<rparr>,
      \<lparr>sp_id = ''professional'', sp_name = ''Professional Plan'', sp_price = 79,
       sp_currency = ''USD'', sp_interval = ''month'',
       sp_features = [''Up to 500 leads'', ''Advanced CRM features'', ''Priority support'',
                      ''Up to 5 users'', ''Advanced analytics'', ''Integrations''],
       sp_limits = [(''leads'', 500), (''users'', 5), (''properties'', 100)]\<rparr>,
      \<lparr>sp_id = ''enterprise'', sp_name = ''Enterprise Plan'', sp_price = 199,
       sp_currency = ''USD'', sp_interval = ''month'',
       sp_features = [''Unlimited leads'', ''Full CRM suite'', ''24/7 support'',
                      ''Unlimited users'', ''Custom integrations'', ''White label options''],
       sp_limits = [(''leads'', - 1), (''users'', - 1), (''properties'', - 1)]\<rparr>]"

definition getPlan :: "string \<Rightarrow> svc_plan option" where
  "getPlan planId = find (\<lambda>p. sp_id p = planId) svc_plans"

record svc_subscription =
  sv_id :: string
  sv_user_id :: string
  sv_agency_id :: "string option"
  sv_plan_id :: string
  sv_plan_name :: string
  sv_price :: int
  sv_currency :: string
  sv_interval :: string
  sv_status :: string
  sv_payment_method :: string
  sv_period_start :: int
  sv_period_end :: int
  sv_features :: "string list"
  sv_limits :: "(string \<times> int) list"

record svc_store =
  svc_rows :: "svc_subscription list"
  svc_faults :: "exn option list"

definition svc_next_fault :: "svc_store \<Rightarrow> exn option \<times> svc_store" where
  "svc_next_fault d =
     (case svc_faults d of [] \<Rightarrow> (None, d) | f # fs \<Rightarrow> (f, d\<lparr>svc_faults := fs\<rparr>))"

definition svc_findOne ::
    "string \<Rightarrow> string list \<Rightarrow> svc_store \<Rightarrow> (exn + svc_subscription option) \<times> svc_store" where
  "svc_findOne userId' sts d =
     (case svc_next_fault d of
        (Some x, d') \<Rightarrow> (Inl x, d')
      | (None, d') \<Rightarrow>
          (Inr (find (\<lambda>r. sv_user_id r = userId' \<and> sv_status r \<in> set sts) (svc_rows d')), d'))"

definition svc_create ::
    "svc_subscription \<Rightarrow> svc_store \<Rightarrow> (exn + svc_subscription) \<times> svc_store" where
  "svc_create r d =
     (case svc_next_fault d of
        (Some x, d') \<Rightarrow> (Inl x, d')
      | (None, d') \<Rightarrow> (Inr r, d'\<lparr>svc_rows := r # svc_rows d'\<rparr>))"

definition svc_update_status ::
    "string \<Rightarrow> string \<Rightarrow> svc_store \<Rightarrow> (exn + unit) \<times> svc_store" where
  "svc_update_status s i d =
     (case svc_next_fault d of
        (Some x, d') \<Rightarrow> (Inl x, d')
      | (None, d') \<Rightarrow>
          (Inr (), d'\<lparr>svc_rows :=
             map (\<lambda>r. if sv_id r = i then r\<lparr>sv_status := s\<rparr> else r) (svc_rows d')\<rparr>))"

text \<open>
  \<^verbatim>\<open>createSubscription(userId, agencyId, planId, paymentMethod = 'trial')\<close>: the
  \<^verbatim>\<open>catch\<close> logs and rethrows. The clock readings of one call are read at the one
  instant \<open>now\<close>, here and in the two functions below.
\<close>

definition createSubscription ::
    "int \<Rightarrow> string \<Rightarrow> string \<Rightarrow> string option \<Rightarrow> string \<Rightarrow> string \<Rightarrow> svc_store
       \<Rightarrow> (exn + svc_subscription) \<times> svc_store" where
  "createSubscription now new_id userId' agencyId' planId paymentMethod d =
     (case getPlan planId of
        None \<Rightarrow> (Inl (Exn ''Error'' (''Plan '' @ planId @ '' not found'')), d)
      | Some plan \<Rightarrow>
          (case svc_findOne userId' [''active'', ''trial''] d of
             (Inl x, d') \<Rightarrow> (Inl x, d')
           | (Inr (Some existingSubscription), d') \<Rightarrow>
               (Inl (Exn ''Error'' ''User already has an active subscription''), d')
           | (Inr None, d') \<Rightarrow>
               svc_create
                 \<lparr>sv_id = new_id, sv_user_id = userId', sv_agency_id = agencyId',
                  sv_plan_id = planId, sv_plan_name = sp_name plan,
                  sv_price = sp_price plan, sv_currency = sp_currency plan,
                  sv_interval = sp_interval plan,
                  sv_status = (if paymentMethod = ''trial'' then ''trial'' else ''active''),
                  sv_payment_method = paymentMethod,
                  sv_period_start = now,
                  sv_period_end =
                    (if paymentMethod = ''trial'' then now + 13 * 24 * 60 * 60 * 1000
                     else now + 30 * 24 * 60 * 60 * 1000),
                  sv_features = sp_features plan, sv_limits = sp_limits plan\<rparr> d'))"

text \<open>\<^verbatim>\<open>getUserSubscription(userId)\<close>: \<open>None\<close> is \<^verbatim>\<open>null\<close>.\<close>

definition getUserSubscription ::
    "int \<Rightarrow> string \<Rightarrow> svc_store \<Rightarrow> (exn + svc_subscription option) \<times> svc_store" where
  "getUserSubscription now userId' d =
     (case svc_findOne userId' [''active'', ''trial'', ''past_due''] d of
        (Inl x, d') \<Rightarrow> (Inl x, d')
      | (Inr None, d') \<Rightarrow> (Inr None, d')
      | (Inr (Some sub), d') \<Rightarrow>
          if sv_status sub = ''trial'' \<and> now > sv_period_end sub then
            (case svc_update_status ''expired'' (sv_id sub) d' of
               (Inl x, d2) \<Rightarrow> (Inl x, d2)
             | (Inr u, d2) \<Rightarrow> (Inr (Some (sub\<lparr>sv_status := ''expired''\<rparr>)), d2))
          else (Inr (Some sub), d'))"

text \<open>\<^verbatim>\<open>getDaysRemaining(userId)\<close> of the service: an exception is answered with 0.\<close>

definition svc_getDaysRemaining :: "int \<Rightarrow> string \<Rightarrow> svc_store \<Rightarrow> int \<times> svc_store" where
  "svc_getDaysRemaining now userId' d =
     (case getUserSubscription now userId' d of
        (Inl x, d') \<Rightarrow> (0, d')
      | (Inr None, d') \<Rightarrow> (0, d')
      | (Inr (Some sub), d') \<Rightarrow>
          if sv_status sub = ''expired'' \<or> sv_status sub = ''cancelled'' then (0, d')
          else (max 0 (- ((- (sv_period_end sub - now)) div (1000 * 3600 * 24))), d'))"

subsection \<open>Vocabulary of the statements\<close>

text \<open>
  \<open>no_faults\<close>: the store answers every query. \<open>find_user d i\<close>: the row that
  \<^verbatim>\<open>userQuery.rows[0]\<close> is for user \<open>i\<close>. \<open>presents_user e req i\<close>: the request is
  not for an exempt route and carries a token that verifies as user \<open>i\<close>.
\<close>

definition no_faults :: "db \<Rightarrow> bool" where
  "no_faults d = list_all (\<lambda>f. f = None) (faults d)"

definition find_user :: "db \<Rightarrow> string \<Rightarrow> user_row option" where
  "find_user d i = find (\<lambda>u. uid u = i) (users d)"

definition presents_user :: "env \<Rightarrow> request \<Rightarrow> string \<Rightarrow> bool" where
  "presents_user e req i =
     (\<not> list_ex (startsWith (path req)) skipRoutes \<and>
      (case authorization req of
         None \<Rightarrow> False
       | Some h \<Rightarrow> h \<noteq> [] \<and> jwt_verify e (bearer_token h) = Inr (Some i)))"

text \<open>
  The transition as the specification words it, to compare the code's write with:
  "update status to expired where id = X and status = 'trial'".
\<close>

definition transitionToExpired_conditional :: "string \<Rightarrow> user_row list \<Rightarrow> user_row list" where
  "transitionToExpired_conditional i us =
     map (\<lambda>u. if uid u = i \<and> subscription_status u = Some ''trial''
              then u\<lparr>subscription_status := Some ''expired''\<rparr> else u) us"

subsection \<open>Sample data\<close>

text \<open>
  One tenant: user \<^verbatim>\<open>u1\<close> of agency \<^verbatim>\<open>a1\<close>, on the starter plan, whose trial ended at
  time 1000; the server runs in UTC; the token \<^verbatim>\<open>t1\<close> verifies as \<^verbatim>\<open>u1\<close>.
\<close>

definition demo_env :: env where
  "demo_env =
     \<lparr>FRONTEND_URL = Some ''https://app.leadestate.test'',
      jwt_verify = (\<lambda>t. if t = ''t1'' then Inr (Some ''u1'')
                         else Inl (Exn ''JsonWebTokenError'' ''invalid token'')),
      builtin_prop = (\<lambda>v k. JUndefined),
      string_to_number = (\<lambda>s. None),
      builtin_to_string = (\<lambda>v. ''[builtin]''),
      localTZA = (\<lambda>t u. 0)\<rparr>"

definition demo_req :: request where
  "demo_req = \<lparr>path = ''/'', authorization = Some ''Bearer t1'', subscription = None,
               usage = Map.empty, trialInfo = None\<rparr>"

definition demo_user :: user_row where
  "demo_user =
     \<lparr>uid = ''u1'', email = ''ann@agency.test'', subscription_status = Some ''trial'',
      trial_end_date = Some 1000, plan_name = Some ''starter'', agency_id = Some ''a1''\<rparr>"

definition demo_db :: db where
  "demo_db = \<lparr>users = [demo_user], leads = [], properties = [], subscriptions = [],
              subscription_plans = [], agencies = [], faults = []\<rparr>"


definition open_trial_db :: db where
  "open_trial_db = demo_db\<lparr>users := [demo_user\<lparr>trial_end_date := None\<rparr>]\<rparr>"


definition upgraded_db :: db where
  "upgraded_db = demo_db\<lparr>users := upgrade_user ''pro'' ''u1'' (users demo_db)\<rparr>"

definition down_db :: db where
  "down_db = demo_db\<lparr>faults := [Some (Exn ''Error'' ''Connection terminated unexpectedly'')]\<rparr>"

text \<open>The store answers the read and fails on the write that follows.\<close>

definition write_down_db :: db where
  "write_down_db =
     demo_db\<lparr>faults := [None, Some (Exn ''Error'' ''Connection terminated unexpectedly'')]\<rparr>"

definition leads_db :: "nat \<Rightarrow> db" where
  "leads_db n = demo_db\<lparr>leads := replicate n (Some ''a1'')\<rparr>"

definition demo_plan :: plan_row where
  "demo_plan =
     \<lparr>plan_id = ''p1'', plan_row_name = ''starter'',
      plan_features =
        JObj [(''whatsapp'', JBool False), (''analytics'', JStr ''basic''),
              (''branding'', JStr ''none''), (''api_access'', JBool False),
              (''google_sheets'', JBool False), (''white_label'', JBool False),
              (''custom_domain'', JBool False)],
      plan_max_leads = Some 1000, plan_max_users = Some 3, plan_max_properties = Some 100\<rparr>"

definition empty_db :: db where
  "empty_db = \<lparr>users = [], leads = [], properties = [], subscriptions = [],
               subscription_plans = [demo_plan], agencies = [], faults = []\<rparr>"

text \<open>The sample tenant with its trial subscription \<^verbatim>\<open>s1\<close>, which ended at time 1000.\<close>

definition demo_subscription :: subscription_row where
  "demo_subscription =
     \<lparr>sub_id = ''s1'', sub_user_id = ''u1'', sub_plan_id = ''p1'', sub_status = ''trial'',
      is_trial = True, trial_start_date = Some 0, sub_trial_end_date = Some 1000,
      current_period_start = 0, current_period_end = 1000, amount = 0\<rparr>"

definition joined_db :: db where
  "joined_db = demo_db\<lparr>subscriptions := [demo_subscription],
                       subscription_plans := [demo_plan]\<rparr>"

definition demo_joined :: joined_row where
  "demo_joined = (demo_user, Some demo_subscription, Some demo_plan)"

definition demo_signup :: signup_request where
  "demo_signup =
     \<lparr>su_email = ''ann@agency.test'', su_password = ''secret1'', su_firstName = ''Ann'',
      su_lastName = ''Lee'', su_companyName = None, validation_failed = False\<rparr>"

definition demo_io :: signup_io where
  "demo_io = \<lparr>new_agency_id = ''a1'', new_user_id = ''u1'', signed_token = ''t1''\<rparr>"

definition empty_store :: svc_store where
  "empty_store = \<lparr>svc_rows = [], svc_faults = []\<rparr>"

text \<open>
  \<^verbatim>\<open>req.subscription\<close> as \<^verbatim>\<open>checkSubscriptionStatus\<close> leaves it for an active
  starter tenant, with a given feature object, and for a tenant of the agency plan.
\<close>

definition demo_sub :: "jsval \<Rightarrow> subscription_info" where
  "demo_sub f =
     \<lparr>userId = ''u1'', agencyId = Some ''a1'', status = Some ''active'',
      planName = Some ''starter'', features = f,
      limits = [(''maxLeads'', JNum 1000), (''maxUsers'', JNum 3),
                (''maxProperties'', JNum 100)],
      trialEndDate = None, isActive = True\<rparr>"

definition req_with_features :: "jsval \<Rightarrow> request" where
  "req_with_features f = demo_req\<lparr>subscription := Some (demo_sub f)\<rparr>"

definition agency_sub :: subscription_info where
  "agency_sub =
     \<lparr>userId = ''u1'', agencyId = Some ''a1'', status = Some ''active'',
      planName = Some ''agency'', features = JObj agency_features,
      limits = [(''maxLeads'', JNull), (''maxUsers'', JNull), (''maxProperties'', JNull)],
      trialEndDate = None, isActive = True\<rparr>"

definition agency_req :: request where
  "agency_req = demo_req\<lparr>subscription := Some agency_sub\<rparr>"

text \<open>A server zone that falls back from two hours to one hour ahead of UTC seven days
  after time 0, as \<^verbatim>\<open>LocalTZA\<close> of ECMAScript describes it.\<close>

definition dst_env :: env where
  "dst_env =
     demo_env\<lparr>localTZA :=
       (\<lambda>t isUTC. if isUTC then (if t < 7 * msPerDay then 7200000 else 3600000)
                  else (if t < 7 * msPerDay + 7200000 then 7200000 else 3600000))\<rparr>"

section \<open>Auxiliary facts\<close>

subsection \<open>The store\<close>

lemma next_fault_no_faults:
  "no_faults d \<Longrightarrow> next_fault d = (None, d\<lparr>faults := tl (faults d)\<rparr>)"
  by (cases "faults d") (simp_all add: next_fault_def no_faults_def)

lemma no_faults_tl: "no_faults d \<Longrightarrow> no_faults (d\<lparr>faults := tl (faults d)\<rparr>)"
  by (cases "faults d") (simp_all add: no_faults_def)

lemma find_filter: "find P xs = Some x \<Longrightarrow> \<exists>rest. filter P xs = x # rest"
  by (induction xs) (auto split: if_splits)

lemma find_append_new: "\<not> list_ex P xs \<Longrightarrow> P x \<Longrightarrow> find P (xs @ [x]) = Some x"
  by (induction xs) simp_all

lemma filter_none: "\<not> list_ex P xs \<Longrightarrow> filter P xs = []"
  by (induction xs) simp_all

lemma find_user_uid: "find_user d i = Some user \<Longrightarrow> uid user = i"
  unfolding find_user_def by (auto simp: find_Some_iff)

lemma select_user_found:
  assumes "no_faults d" and "find_user d i = Some user"
  shows "\<exists>rest. select_user (Some i) d = (Inr (user # rest), d\<lparr>faults := tl (faults d)\<rparr>)"
proof -
  from assms(2) obtain rest where "filter (\<lambda>u. uid u = i) (users d) = user # rest"
    unfolding find_user_def using find_filter by fastforce
  then show ?thesis
    by (simp add: select_user_def next_fault_no_faults [OF assms(1)])
qed

lemma find_set_user_status:
  "find (\<lambda>u. uid u = i) us = Some user \<Longrightarrow>
   find (\<lambda>u. uid u = i) (set_user_status s i us) = Some (user\<lparr>subscription_status := Some s\<rparr>)"
  by (induction us) (auto simp: set_user_status_def)

lemma set_user_status_idem:
  "set_user_status s i (set_user_status s i us) = set_user_status s i us"
  by (induction us) (simp_all add: set_user_status_def)

lemma set_user_status_mem:
  assumes "u \<in> set (set_user_status s i us)" and "uid u = i"
  shows "subscription_status u = Some s"
proof -
  from assms(1) obtain a
    where a: "u = (if uid a = i then a\<lparr>subscription_status := Some s\<rparr> else a)"
    unfolding set_user_status_def set_map by (rule imageE)
  show ?thesis
  proof (cases "uid a = i")
    case True
    with a show ?thesis by simp
  next
    case False
    with a assms(2) show ?thesis by simp
  qed
qed

lemma set_user_status_all:
  "\<forall>u \<in> set (set_user_status s i us). uid u = i \<longrightarrow> subscription_status u = Some s"
  using set_user_status_mem by blast

lemma set_subscription_status_idem:
  "set_subscription_status s i (set_subscription_status s i ss) = set_subscription_status s i ss"
  by (induction ss) (simp_all add: set_subscription_status_def)

subsection \<open>Strings and days\<close>

lemma capitalize_leads: "capitalize ''leads'' = ''Leads''"
  by code_simp

lemma capitalize_users: "capitalize ''users'' = ''Users''"
  by code_simp

lemma capitalize_properties: "capitalize ''properties'' = ''Properties''"
  by code_simp

lemma ceil_aux:
  fixes x k D :: int
  assumes "0 \<le> x" and "x < D"
  shows "- ((- (k * D - x)) div D) = k"
proof -
  have "(- (k * D - x)) = x + (- k) * D" by (simp add: algebra_simps)
  moreover have "(x + (- k) * D) div D = x div D + (- k)"
    using assms by (subst div_mult_self1) auto
  moreover have "x div D = 0" using assms by simp
  ultimately show ?thesis by simp
qed

lemma ceil_days_window:
  assumes "0 \<le> x" and "x < msPerDay"
  shows "ceil_days (k * msPerDay - x) = k"
  unfolding ceil_days_def using assms by (rule ceil_aux)

lemma setDate_plus_const:
  "\<forall>t b. localTZA e t b = c \<Longrightarrow> setDate_plus e t n = t + n * msPerDay"
  by (simp add: setDate_plus_def Let_def)

subsection \<open>The branches of checkSubscriptionStatus\<close>

lemma presents_userD:
  assumes "presents_user e req i"
  obtains h where "authorization req = Some h" and "h \<noteq> []"
    and "jwt_verify e (bearer_token h) = Inr (Some i)"
    and "\<not> list_ex (startsWith (path req)) skipRoutes"
  using assms by (auto simp: presents_user_def split: option.splits)

lemma css_try_found:
  assumes "presents_user e req i" and "no_faults d" and "find_user d i = Some user"
  shows "css_try e now req d = css_decide e now req user (d\<lparr>faults := tl (faults d)\<rparr>)"
proof -
  from assms(1) obtain h where h: "authorization req = Some h" "h \<noteq> []"
      "jwt_verify e (bearer_token h) = Inr (Some i)"
      "\<not> list_ex (startsWith (path req)) skipRoutes"
    by (rule presents_userD)
  from select_user_found [OF assms(2,3)] obtain rest
    where "select_user (Some i) d = (Inr (user # rest), d\<lparr>faults := tl (faults d)\<rparr>)" by blast
  with h show ?thesis by (simp add: css_try_def)
qed

lemma css_decide_expired:
  assumes "subscription_status user = Some ''trial''" and "trial_end_date user = Some t"
    and "t < now" and "no_faults d"
  shows "css_decide e now req user d =
     (Inr (deny 402
        ''Your free trial has expired. Please upgrade to continue using LeadEstate.''
        (Some ''TRIAL_EXPIRED'')
        (Some [(''trialEndDate'', JDate t), (''upgradeUrl'', JStr (upgradeUrl_of e))])),
      d\<lparr>faults := tl (faults d), users := set_user_status ''expired'' (uid user) (users d)\<rparr>)"
  using assms
  by (simp add: css_decide_def update_user_status_def next_fault_no_faults date_to_js_def)

lemma css_decide_inactive:
  assumes "\<not> is_active_status (subscription_status user)"
  shows "css_decide e now req user d =
     (Inr (deny 402 ''Your subscription is not active. Please upgrade to continue.''
        (Some ''SUBSCRIPTION_INACTIVE'')
        (Some [(''status'', opt_to_js (subscription_status user)),
               (''upgradeUrl'', JStr (upgradeUrl_of e))])), d)"
  using assms
  by (cases "trial_end_date user") (simp_all add: css_decide_def is_active_status_def Let_def)

lemma css_decide_authorized:
  assumes "is_active_status (subscription_status user)"
    and "subscription_status user = Some ''trial'' \<Longrightarrow>
           (case trial_end_date user of None \<Rightarrow> True | Some t \<Rightarrow> now \<le> t)"
  shows "css_decide e now req user d =
     (Inr (Next (req\<lparr>subscription := Some
        \<lparr>userId = uid user, agencyId = agency_id user,
         status = subscription_status user, planName = plan_name user,
         features = resolve_features (plan_name user),
         limits = [(''maxLeads'', js_prop e (resolve_features (plan_name user)) ''max_leads''),
                   (''maxUsers'', js_prop e (resolve_features (plan_name user)) ''max_users''),
                   (''maxProperties'',
                      js_prop e (resolve_features (plan_name user)) ''max_properties'')],
         trialEndDate = trial_end_date user, isActive = True\<rparr>\<rparr>)), d)"
  using assms
  by (cases "trial_end_date user") (auto simp add: css_decide_def Let_def)

lemma css_decide_throw_keeps_store:
  "css_decide e now req user d = (Inl x, d') \<Longrightarrow>
   users d' = users d \<and> subscriptions d' = subscriptions d"
  by (auto simp add: css_decide_def Let_def update_user_status_def next_fault_def
      split: option.splits if_splits list.splits prod.splits sum.splits)

lemma css_try_throw_keeps_store:
  "css_try e now req d = (Inl x, d') \<Longrightarrow> users d' = users d \<and> subscriptions d' = subscriptions d"
  by (auto simp add: css_try_def select_user_def next_fault_def
      dest!: css_decide_throw_keeps_store
      split: option.splits if_splits list.splits prod.splits sum.splits)

lemma css_try_read_fails:
  assumes "presents_user e req i" and "faults d = Some x # fs"
  shows "css_try e now req d = (Inl x, d\<lparr>faults := fs\<rparr>)"
proof -
  from assms(1) obtain h where "authorization req = Some h" "h \<noteq> []"
      "jwt_verify e (bearer_token h) = Inr (Some i)"
      "\<not> list_ex (startsWith (path req)) skipRoutes"
    by (rule presents_userD)
  then show ?thesis using assms(2)
    by (simp add: css_try_def select_user_def next_fault_def)
qed

lemma css_try_write_fails:
  assumes "presents_user e req i" and "faults d = None # Some x # fs"
    and "find_user d i = Some user"
    and "subscription_status user = Some ''trial''" and "trial_end_date user = Some t"
    and "t < now"
  shows "css_try e now req d = (Inl x, d\<lparr>faults := fs\<rparr>)"
proof -
  from assms(1) obtain h where h: "authorization req = Some h" "h \<noteq> []"
      "jwt_verify e (bearer_token h) = Inr (Some i)"
      "\<not> list_ex (startsWith (path req)) skipRoutes"
    by (rule presents_userD)
  from assms(3) obtain rest where "filter (\<lambda>u. uid u = i) (users d) = user # rest"
    unfolding find_user_def using find_filter by fastforce
  with h assms(2,4,5,6) show ?thesis
    by (simp add: css_try_def select_user_def next_fault_def css_decide_def
        update_user_status_def)
qed

lemma demo_presents: "presents_user demo_env demo_req ''u1''"
  by (simp add: presents_user_def demo_req_def demo_env_def skipRoutes_def startsWith_def
      bearer_token_def)

lemma dst_presents: "presents_user dst_env demo_req ''u1''"
  by (simp add: presents_user_def demo_req_def dst_env_def demo_env_def skipRoutes_def
      startsWith_def bearer_token_def)

lemma demo_upgradeUrl: "upgradeUrl_of demo_env = ''https://app.leadestate.test/upgrade''"
  by (simp add: upgradeUrl_of_def demo_env_def)

subsection \<open>The branches of checkUsageLimit\<close>



lemma cul_try_count_fails:
  assumes "subscription req = Some sub"
    and "obj_get (limits sub) (''max'' @ capitalize resourceType) \<noteq> JNull"
    and "truthy (obj_get tableMap resourceType)"
    and "faults d = Some x # fs"
  shows "cul_try resourceType e req d = (Inl x, d\<lparr>faults := fs\<rparr>)"
  using assms by (simp add: cul_try_def Let_def count_query_def next_fault_def)


subsection \<open>Features\<close>

lemma feature_enabled_iff:
  "feature_enabled v = (v = JBool True \<or> (\<exists>s. v = JStr s \<and> s \<noteq> ''none''))"
  by (cases v) (simp_all add: feature_enabled_def)

lemma resolve_features_starter: "resolve_features (Some ''starter'') = JObj starter_features"
  by (simp add: resolve_features_def obj_get_def planFeatures_def opt_to_string_def)

lemma resolve_features_unknown:
  assumes "pn \<notin> {Some ''starter'', Some ''pro'', Some ''agency''}"
    and "opt_to_string pn \<notin> set object_prototype_keys"
  shows "resolve_features pn = JObj starter_features"
  using assms
  by (cases pn) (auto simp add: resolve_features_def obj_get_def planFeatures_def opt_to_string_def)

subsection \<open>The expiry writes of the joining variant\<close>

lemma expire_joined_ok:
  assumes "no_faults d"
  shows "\<exists>fs. expire_joined i sid d =
     (Inr (), d\<lparr>faults := fs, users := set_user_status ''expired'' i (users d),
                subscriptions :=
                  (case sid of None \<Rightarrow> subscriptions d
                   | Some k \<Rightarrow> if k = [] then subscriptions d
                               else set_subscription_status ''expired'' k (subscriptions d))\<rparr>)
     \<and> list_all (\<lambda>f. f = None) fs"
proof -
  let ?d1 = "d\<lparr>faults := tl (faults d)\<rparr>"
  have nf1: "no_faults ?d1" using assms by (rule no_faults_tl)
  have nf1': "no_faults (?d1\<lparr>users := set_user_status ''expired'' i (users d)\<rparr>)"
    using nf1 by (simp add: no_faults_def)
  show ?thesis
  proof (cases "sid = None \<or> sid = Some []")
    case True
    then show ?thesis
      using nf1 next_fault_no_faults [OF assms]
      by (auto simp add: expire_joined_def update_user_status_def no_faults_def
          intro!: exI [of _ "tl (faults d)"])
  next
    case False
    then obtain k where k: "sid = Some k" "k \<noteq> []" by (cases sid) auto
    show ?thesis
      using k nf1 nf1' next_fault_no_faults [OF assms] next_fault_no_faults [OF nf1']
        no_faults_tl [OF nf1]
      by (auto simp add: expire_joined_def update_user_status_def
          update_subscription_status_def no_faults_def
          intro!: exI [of _ "tl (tl (faults d))"])
  qed
qed

subsection \<open>Creating a trial\<close>

lemma list_all_tl: "list_all P xs \<Longrightarrow> list_all P (tl xs)"
  by (cases xs) simp_all

lemma signup_try_created:
  assumes "\<not> validation_failed body" and "no_faults d"
    and "\<not> list_ex (\<lambda>u. email u = su_email body) (users d)"
    and "\<not> list_ex (\<lambda>u. uid u = new_user_id io) (users d)"
    and "\<not> list_ex (\<lambda>a. agency_row_id a = new_agency_id io) (agencies d)"
  shows "\<exists>r d'. signup_try e now now' io body d = (Inr r, d') \<and> http_status r = 201
           \<and> users d' = users d @
               [\<lparr>uid = new_user_id io, email = su_email body,
                 subscription_status = Some ''trial'',
                 trial_end_date = Some (setDate_plus e now 14),
                 plan_name = Some ''starter'', agency_id = Some (new_agency_id io)\<rparr>]
           \<and> no_faults d'"
proof -
  have nf: "list_all (\<lambda>f. f = None) (faults d)"
    using assms(2) by (simp add: no_faults_def)
  note nfs = list_all_tl [OF nf] list_all_tl [OF list_all_tl [OF nf]]
    list_all_tl [OF list_all_tl [OF list_all_tl [OF nf]]]
  show ?thesis
    using assms(1,4,5) nf nfs filter_none [OF assms(3)]
    by (simp add: signup_try_def Let_def select_by_email_def insert_user_def
        insert_agency_def next_fault_no_faults no_faults_def)
qed

lemma gate_after_signup:
  assumes "presents_user e req i" and "no_faults d" and "find_user d i = Some user"
    and "subscription_status user = Some ''trial''"
    and "trial_end_date user = Some (t0 + 14 * msPerDay)"
    and "plan_name user = Some ''starter''"
    and "t0 \<le> now" and "now \<le> now'" and "now' < t0 + msPerDay"
  shows "\<exists>r. fst (leads_index_gate e now now' req d) = Next r
           \<and> trialInfo r = Some \<lparr>daysRemaining = 14, endDate = t0 + 14 * msPerDay,
                 isExpiringSoon = False, upgradeUrl = upgradeUrl_of e\<rparr>
           \<and> map_option status (subscription r) = Some (Some ''trial'')
           \<and> map_option planName (subscription r) = Some (Some ''starter'')
           \<and> map_option features (subscription r) = Some (JObj starter_features)"
proof -
  have act: "is_active_status (subscription_status user)"
    using assms(4) by (simp add: is_active_status_def)
  have le: "now \<le> t0 + 14 * msPerDay" using assms(8,9) by (simp add: msPerDay_def)
  have dec: "css_decide e now req user (d\<lparr>faults := tl (faults d)\<rparr>) =
     (Inr (Next (req\<lparr>subscription := Some
        \<lparr>userId = uid user, agencyId = agency_id user,
         status = subscription_status user, planName = plan_name user,
         features = resolve_features (plan_name user),
         limits = [(''maxLeads'', js_prop e (resolve_features (plan_name user)) ''max_leads''),
                   (''maxUsers'', js_prop e (resolve_features (plan_name user)) ''max_users''),
                   (''maxProperties'',
                      js_prop e (resolve_features (plan_name user)) ''max_properties'')],
         trialEndDate = trial_end_date user, isActive = True\<rparr>\<rparr>)),
       d\<lparr>faults := tl (faults d)\<rparr>)"
    using act assms(5) le by (intro css_decide_authorized) simp_all
  have days: "ceil_days (t0 + 14 * msPerDay - now') = 14"
    using ceil_days_window [of "now' - t0" 14] assms(7,8,9) by (simp add: algebra_simps)
  show ?thesis
    using css_try_found [OF assms(1,2,3), of now] dec assms(4,5,6) days
      resolve_features_starter
    by (simp add: leads_index_gate_def checkSubscriptionStatus_def addTrialInfo_def Let_def)
qed

lemma createTrial_default:
  assumes "no_faults d"
    and "find (\<lambda>p. plan_row_name p = ''starter'') (subscription_plans d) = Some sp"
    and "\<not> list_ex (\<lambda>q. sub_id q = new_id) (subscriptions d)"
  shows "fst (createTrial e now new_id u None d) =
     Inr \<lparr>sub_id = new_id, sub_user_id = u, sub_plan_id = plan_id sp,
          sub_status = ''trial'', is_trial = True, trial_start_date = Some now,
          sub_trial_end_date = Some (setDate_plus e now 14),
          current_period_start = now, current_period_end = setDate_plus e now 14,
          amount = 0\<rparr>"
proof -
  let ?d1 = "d\<lparr>faults := tl (faults d)\<rparr>"
  have nf1: "no_faults ?d1" using assms(1) by (rule no_faults_tl)
  show ?thesis
    using next_fault_no_faults [OF assms(1)] next_fault_no_faults [OF nf1] assms(2,3)
    by (simp add: createTrial_def starter_plan_id_def find_plan_by_name_def
        create_subscription_row_def Let_def)
qed

lemma createSubscription_trial:
  assumes "getPlan planId = Some plan" and "svc_faults s = []"
    and "find (\<lambda>r. sv_user_id r = u \<and> sv_status r \<in> set [''active'', ''trial''])
           (svc_rows s) = None"
  shows "fst (createSubscription now new_id u a planId ''trial'' s) =
     Inr \<lparr>sv_id = new_id, sv_user_id = u, sv_agency_id = a, sv_plan_id = planId,
          sv_plan_name = sp_name plan, sv_price = sp_price plan,
          sv_currency = sp_currency plan, sv_interval = sp_interval plan,
          sv_status = ''trial'', sv_payment_method = ''trial'', sv_period_start = now,
          sv_period_end = now + 13 * msPerDay, sv_features = sp_features plan,
          sv_limits = sp_limits plan\<rparr>"
  using assms
  by (simp add: createSubscription_def svc_findOne_def svc_next_fault_def svc_create_def
      msPerDay_def)

lemma createSubscription_trial_days:
  assumes "getPlan planId = Some plan" and "svc_faults s = []"
    and "find (\<lambda>r. sv_user_id r = u \<and> sv_status r \<in> set [''active'', ''trial''])
           (svc_rows s) = None"
    and "now \<le> nowE" and "nowE < now + msPerDay"
  shows "fst (svc_getDaysRemaining nowE u
           (snd (createSubscription now new_id u a planId ''trial'' s))) = 13"
proof -
  have d13: "- ((- (13 * 86400000 - (nowE - now))) div 86400000) = (13::int)"
    using assms(4,5) by (intro ceil_aux) (simp_all add: msPerDay_def)
  have e: "now + 1123200000 - nowE = 13 * 86400000 - (nowE - now)" by simp
  show ?thesis
    using assms d13
    by (simp add: createSubscription_def svc_findOne_def svc_next_fault_def svc_create_def
        svc_getDaysRemaining_def getUserSubscription_def msPerDay_def e)
qed

subsection \<open>The joining variant of checkSubscriptionStatus\<close>

lemma set_subscription_status_mem:
  assumes "r \<in> set (set_subscription_status s i ss)" and "sub_id r = i"
  shows "sub_status r = s"
proof -
  from assms(1) obtain a
    where a: "r = (if sub_id a = i then a\<lparr>sub_status := s\<rparr> else a)"
    unfolding set_subscription_status_def set_map by (rule imageE)
  show ?thesis
  proof (cases "sub_id a = i")
    case True
    with a show ?thesis by simp
  next
    case False
    with a assms(2) show ?thesis by simp
  qed
qed

lemma set_subscription_status_all:
  "\<forall>r \<in> set (set_subscription_status s i ss). sub_id r = i \<longrightarrow> sub_status r = s"
  using set_subscription_status_mem by blast

lemma css_decide_joined_expired:
  assumes "joined_status jr = Some ''trial''" and "joined_trialEndDate jr = Some t"
    and "t < now" and "no_faults d"
  shows "\<exists>fs. css_decide_joined e now req jr d =
     (Inr (deny 402
        ''Your free trial has expired. Please upgrade to continue using LeadEstate.''
        (Some ''TRIAL_EXPIRED'')
        (Some [(''trialEndDate'', JDate t), (''upgradeUrl'', JStr (upgradeUrl_of e))])),
      d\<lparr>faults := fs, users := set_user_status ''expired'' (uid (fst jr)) (users d),
        subscriptions :=
          (case joined_subscription_id jr of None \<Rightarrow> subscriptions d
           | Some k \<Rightarrow> if k = [] then subscriptions d
                       else set_subscription_status ''expired'' k (subscriptions d))\<rparr>)
     \<and> list_all (\<lambda>f. f = None) fs"
proof -
  from expire_joined_ok [OF assms(4), of "uid (fst jr)" "joined_subscription_id jr"]
  obtain fs where
    j: "expire_joined (uid (fst jr)) (joined_subscription_id jr) d =
     (Inr (), d\<lparr>faults := fs, users := set_user_status ''expired'' (uid (fst jr)) (users d),
        subscriptions :=
          (case joined_subscription_id jr of None \<Rightarrow> subscriptions d
           | Some k \<Rightarrow> if k = [] then subscriptions d
                       else set_subscription_status ''expired'' k (subscriptions d))\<rparr>)"
    and fs: "list_all (\<lambda>f. f = None) fs" by blast
  have "css_decide_joined e now req jr d =
     (Inr (deny 402
        ''Your free trial has expired. Please upgrade to continue using LeadEstate.''
        (Some ''TRIAL_EXPIRED'')
        (Some [(''trialEndDate'', JDate t), (''upgradeUrl'', JStr (upgradeUrl_of e))])),
      d\<lparr>faults := fs, users := set_user_status ''expired'' (uid (fst jr)) (users d),
        subscriptions :=
          (case joined_subscription_id jr of None \<Rightarrow> subscriptions d
           | Some k \<Rightarrow> if k = [] then subscriptions d
                       else set_subscription_status ''expired'' k (subscriptions d))\<rparr>)"
    unfolding css_decide_joined_def Let_def j using assms(1,2,3)
    by (simp add: date_to_js_def)
  with fs show ?thesis by blast
qed

lemma css_try_joined_found:
  assumes "presents_user e req i" and "select_joined (Some i) d = (Inr (jr # rest), d0)"
  shows "css_try_joined e now req d = css_decide_joined e now req jr d0"
proof -
  from assms(1) obtain h where h: "authorization req = Some h" "h \<noteq> []"
      "jwt_verify e (bearer_token h) = Inr (Some i)"
      "\<not> list_ex (startsWith (path req)) skipRoutes"
    by (rule presents_userD)
  with assms(2) show ?thesis by (simp add: css_try_joined_def)
qed

lemma select_joined_no_faults:
  "no_faults d \<Longrightarrow> snd (select_joined p d) = d\<lparr>faults := tl (faults d)\<rparr>"
  by (simp add: select_joined_def next_fault_no_faults)

section \<open>The claims\<close>

subsection \<open>C1: an expired trial is denied, persisted as expired, then denied as inactive\<close>

text \<open>
  C1. A tenant whose status is \<^verbatim>\<open>trial\<close> and whose trial end lies strictly before now:
  the first evaluation answers 402 with code \<^verbatim>\<open>TRIAL_EXPIRED\<close> and the original trial end,
  and stores \<^verbatim>\<open>expired\<close> in every row of that user; a second evaluation of the same
  tenant, by any later request and at any time, answers 402 with code
  \<^verbatim>\<open>SUBSCRIPTION_INACTIVE\<close> and status \<^verbatim>\<open>expired\<close>, and writes nothing more.
\<close>

theorem trial_expired_then_inactive:
  assumes "presents_user e req1 i" and "presents_user e req2 i"
    and "no_faults d" and "find_user d i = Some user"
    and "subscription_status user = Some ''trial''"
    and "trial_end_date user = Some t" and "t < now1"
  shows "fst (checkSubscriptionStatus e now1 req1 d) =
           deny 402 ''Your free trial has expired. Please upgrade to continue using LeadEstate.''
             (Some ''TRIAL_EXPIRED'')
             (Some [(''trialEndDate'', JDate t), (''upgradeUrl'', JStr (upgradeUrl_of e))])
       \<and> users (snd (checkSubscriptionStatus e now1 req1 d)) =
           set_user_status ''expired'' i (users d)
       \<and> find_user (snd (checkSubscriptionStatus e now1 req1 d)) i =
           Some (user\<lparr>subscription_status := Some ''expired''\<rparr>)
       \<and> fst (checkSubscriptionStatus e now2 req2 (snd (checkSubscriptionStatus e now1 req1 d))) =
           deny 402 ''Your subscription is not active. Please upgrade to continue.''
             (Some ''SUBSCRIPTION_INACTIVE'')
             (Some [(''status'', JStr ''expired''), (''upgradeUrl'', JStr (upgradeUrl_of e))])
       \<and> users (snd (checkSubscriptionStatus e now2 req2
                        (snd (checkSubscriptionStatus e now1 req1 d)))) =
           set_user_status ''expired'' i (users d)"
proof -
  let ?d0 = "d\<lparr>faults := tl (faults d)\<rparr>"
  let ?d1 = "?d0\<lparr>faults := tl (faults ?d0), users := set_user_status ''expired'' i (users ?d0)\<rparr>"
  let ?user1 = "user\<lparr>subscription_status := Some ''expired''\<rparr>"
  have i: "uid user = i" using assms(4) by (rule find_user_uid)
  have nf0: "no_faults ?d0" using assms(3) by (rule no_faults_tl)
  have first: "checkSubscriptionStatus e now1 req1 d =
      (deny 402 ''Your free trial has expired. Please upgrade to continue using LeadEstate.''
         (Some ''TRIAL_EXPIRED'')
         (Some [(''trialEndDate'', JDate t), (''upgradeUrl'', JStr (upgradeUrl_of e))]), ?d1)"
    using css_try_found [OF assms(1,3,4), of now1]
      css_decide_expired [OF assms(5,6,7) nf0, of e req1] i
    by (simp add: checkSubscriptionStatus_def)
  have nf1: "no_faults ?d1" using no_faults_tl [OF nf0] by (simp add: no_faults_def)
  have f1: "find_user ?d1 i = Some ?user1"
    using assms(4) by (simp add: find_user_def find_set_user_status)
  have inactive: "\<not> is_active_status (subscription_status ?user1)"
    by (simp add: is_active_status_def)
  have second: "checkSubscriptionStatus e now2 req2 ?d1 =
      (deny 402 ''Your subscription is not active. Please upgrade to continue.''
         (Some ''SUBSCRIPTION_INACTIVE'')
         (Some [(''status'', JStr ''expired''), (''upgradeUrl'', JStr (upgradeUrl_of e))]),
       ?d1\<lparr>faults := tl (faults ?d1)\<rparr>)"
    using css_try_found [OF assms(2) nf1 f1, of now2]
      css_decide_inactive [OF inactive, of e now2 req2 "?d1\<lparr>faults := tl (faults ?d1)\<rparr>"]
    by (simp add: checkSubscriptionStatus_def opt_to_js_def)
  show ?thesis using first second f1 by simp
qed

text \<open>The trial of the sample tenant ended 15 days before the first request.\<close>

theorem trial_expired_then_inactive_witness:
  "presents_user demo_env demo_req ''u1'' \<and> no_faults demo_db
   \<and> find_user demo_db ''u1'' = Some demo_user
   \<and> subscription_status demo_user = Some ''trial''
   \<and> trial_end_date demo_user = Some 1000
   \<and> fst (checkSubscriptionStatus demo_env 1296001000 demo_req demo_db) =
        deny 402 ''Your free trial has expired. Please upgrade to continue using LeadEstate.''
          (Some ''TRIAL_EXPIRED'')
          (Some [(''trialEndDate'', JDate 1000),
                 (''upgradeUrl'', JStr ''https://app.leadestate.test/upgrade'')])
   \<and> fst (checkSubscriptionStatus demo_env 1296002000 demo_req
            (snd (checkSubscriptionStatus demo_env 1296001000 demo_req demo_db))) =
        deny 402 ''Your subscription is not active. Please upgrade to continue.''
          (Some ''SUBSCRIPTION_INACTIVE'')
          (Some [(''status'', JStr ''expired''),
                 (''upgradeUrl'', JStr ''https://app.leadestate.test/upgrade'')])"
proof -
  have a: "no_faults demo_db" by (simp add: no_faults_def demo_db_def)
  have b: "find_user demo_db ''u1'' = Some demo_user"
    by (simp add: find_user_def demo_db_def demo_user_def)
  have c: "subscription_status demo_user = Some ''trial''" by (simp add: demo_user_def)
  have d: "trial_end_date demo_user = Some 1000" by (simp add: demo_user_def)
  have e: "(1000::int) < 1296001000" by simp
  from trial_expired_then_inactive [OF demo_presents demo_presents a b c d e, of 1296002000]
    demo_presents a b c d demo_upgradeUrl
  show ?thesis by simp
qed

subsection \<open>C2: the expiry write\<close>

text \<open>
  C2, as stated, makes the transition a conditional write, "set status to expired where the
  row's current status is trial". The code's write names the row by id only. The two differ
  when the row is no longer a trial at the time of the write: an evaluation reads the sample
  tenant as an expired trial, the upgrade route then makes the row \<^verbatim>\<open>active\<close>, and the
  evaluation's \<^verbatim>\<open>UPDATE\<close> turns it to \<^verbatim>\<open>expired\<close>, where the conditional write would
  leave it \<^verbatim>\<open>active\<close>.
\<close>

theorem expiry_write_counterexample:
  "map subscription_status (users upgraded_db) = [Some ''active'']
   \<and> map subscription_status
        (users (snd (css_decide demo_env 2000 demo_req demo_user upgraded_db)))
       = [Some ''expired'']
   \<and> map subscription_status (transitionToExpired_conditional ''u1'' (users upgraded_db))
       = [Some ''active'']
   \<and> users (snd (css_decide demo_env 2000 demo_req demo_user upgraded_db))
       \<noteq> transitionToExpired_conditional ''u1'' (users upgraded_db)"
  by (simp add: upgraded_db_def demo_db_def demo_user_def upgrade_user_def css_decide_def
      update_user_status_def next_fault_def set_user_status_def
      transitionToExpired_conditional_def)

text \<open>
  C2, amended. In both variants the transition is an unconditional write by id, with no
  test of the row's current status. Two evaluations both read the tenant as an expired
  trial (the flat variant the row \<open>user\<close>, the joining variant the joined row \<open>jr\<close>) and
  then write, one after the other, against a store \<open>d\<close> that answers. In either variant
  neither evaluation throws and both answer 402 with code \<^verbatim>\<open>TRIAL_EXPIRED\<close>; after the
  first write as after the second, \<^verbatim>\<open>users\<close> is the store's table with every row of that
  user id set to \<^verbatim>\<open>expired\<close>, whatever the rows held before, and in the joining variant
  \<^verbatim>\<open>subscriptions\<close> is the store's table with every row of the subscription id the row
  carries set to \<^verbatim>\<open>expired\<close> (left as it is when the row carries none). The joining
  middleware as a whole, on a request of user \<open>i\<close> whose query returns \<open>jr\<close> first,
  answers and writes the same.
\<close>

theorem expiry_write_unconditional_idempotent:
  assumes "subscription_status user = Some ''trial''" and "trial_end_date user = Some t"
    and "t < now1" and "t < now2"
    and "joined_status jr = Some ''trial''" and "joined_trialEndDate jr = Some tj"
    and "tj < now1" and "tj < now2"
    and "no_faults d"
  shows "fst (css_decide e now1 req1 user d) =
           Inr (deny 402
             ''Your free trial has expired. Please upgrade to continue using LeadEstate.''
             (Some ''TRIAL_EXPIRED'')
             (Some [(''trialEndDate'', JDate t), (''upgradeUrl'', JStr (upgradeUrl_of e))]))
       \<and> fst (css_decide e now2 req2 user (snd (css_decide e now1 req1 user d))) =
           Inr (deny 402
             ''Your free trial has expired. Please upgrade to continue using LeadEstate.''
             (Some ''TRIAL_EXPIRED'')
             (Some [(''trialEndDate'', JDate t), (''upgradeUrl'', JStr (upgradeUrl_of e))]))
       \<and> users (snd (css_decide e now1 req1 user d)) =
           set_user_status ''expired'' (uid user) (users d)
       \<and> users (snd (css_decide e now2 req2 user (snd (css_decide e now1 req1 user d)))) =
           set_user_status ''expired'' (uid user) (users d)
       \<and> (\<forall>u \<in> set (set_user_status ''expired'' (uid user) (users d)).
             uid u = uid user \<longrightarrow> subscription_status u = Some ''expired'')
       \<and> fst (css_decide_joined e now1 req1 jr d) =
           Inr (deny 402
             ''Your free trial has expired. Please upgrade to continue using LeadEstate.''
             (Some ''TRIAL_EXPIRED'')
             (Some [(''trialEndDate'', JDate tj), (''upgradeUrl'', JStr (upgradeUrl_of e))]))
       \<and> fst (css_decide_joined e now2 req2 jr (snd (css_decide_joined e now1 req1 jr d))) =
           Inr (deny 402
             ''Your free trial has expired. Please upgrade to continue using LeadEstate.''
             (Some ''TRIAL_EXPIRED'')
             (Some [(''trialEndDate'', JDate tj), (''upgradeUrl'', JStr (upgradeUrl_of e))]))
       \<and> users (snd (css_decide_joined e now1 req1 jr d)) =
           set_user_status ''expired'' (uid (fst jr)) (users d)
       \<and> users (snd (css_decide_joined e now2 req2 jr
                        (snd (css_decide_joined e now1 req1 jr d)))) =
           set_user_status ''expired'' (uid (fst jr)) (users d)
       \<and> subscriptions (snd (css_decide_joined e now1 req1 jr d)) =
           (case joined_subscription_id jr of
              None \<Rightarrow> subscriptions d
            | Some k \<Rightarrow> if k = [] then subscriptions d
                        else set_subscription_status ''expired'' k (subscriptions d))
       \<and> subscriptions (snd (css_decide_joined e now2 req2 jr
                                (snd (css_decide_joined e now1 req1 jr d)))) =
           (case joined_subscription_id jr of
              None \<Rightarrow> subscriptions d
            | Some k \<Rightarrow> if k = [] then subscriptions d
                        else set_subscription_status ''expired'' k (subscriptions d))
       \<and> (\<forall>r \<in> set (set_subscription_status ''expired'' k (subscriptions d)).
             sub_id r = k \<longrightarrow> sub_status r = ''expired'')
       \<and> (presents_user e req1 i \<and> fst (select_joined (Some i) d) = Inr (jr # rest) \<longrightarrow>
            fst (checkSubscriptionStatus_joined e now1 req1 d) =
              deny 402
                ''Your free trial has expired. Please upgrade to continue using LeadEstate.''
                (Some ''TRIAL_EXPIRED'')
                (Some [(''trialEndDate'', JDate tj), (''upgradeUrl'', JStr (upgradeUrl_of e))])
          \<and> users (snd (checkSubscriptionStatus_joined e now1 req1 d)) =
              set_user_status ''expired'' (uid (fst jr)) (users d)
          \<and> subscriptions (snd (checkSubscriptionStatus_joined e now1 req1 d)) =
              (case joined_subscription_id jr of
                 None \<Rightarrow> subscriptions d
               | Some k \<Rightarrow> if k = [] then subscriptions d
                           else set_subscription_status ''expired'' k (subscriptions d)))"
proof -
  let ?d1 = "d\<lparr>faults := tl (faults d),
                users := set_user_status ''expired'' (uid user) (users d)\<rparr>"
  have one: "css_decide e now1 req1 user d =
      (Inr (deny 402
         ''Your free trial has expired. Please upgrade to continue using LeadEstate.''
         (Some ''TRIAL_EXPIRED'')
         (Some [(''trialEndDate'', JDate t), (''upgradeUrl'', JStr (upgradeUrl_of e))])), ?d1)"
    using assms(1,2,3,9) by (rule css_decide_expired)
  have nf1: "no_faults ?d1"
    using no_faults_tl [OF assms(9)] by (simp add: no_faults_def)
  have two: "css_decide e now2 req2 user ?d1 =
      (Inr (deny 402
         ''Your free trial has expired. Please upgrade to continue using LeadEstate.''
         (Some ''TRIAL_EXPIRED'')
         (Some [(''trialEndDate'', JDate t), (''upgradeUrl'', JStr (upgradeUrl_of e))])),
       ?d1\<lparr>faults := tl (faults ?d1),
            users := set_user_status ''expired'' (uid user) (users ?d1)\<rparr>)"
    using assms(1,2,4) nf1 by (rule css_decide_expired)
  have flat: "fst (css_decide e now1 req1 user d) =
           Inr (deny 402
             ''Your free trial has expired. Please upgrade to continue using LeadEstate.''
             (Some ''TRIAL_EXPIRED'')
             (Some [(''trialEndDate'', JDate t), (''upgradeUrl'', JStr (upgradeUrl_of e))]))
       \<and> fst (css_decide e now2 req2 user (snd (css_decide e now1 req1 user d))) =
           Inr (deny 402
             ''Your free trial has expired. Please upgrade to continue using LeadEstate.''
             (Some ''TRIAL_EXPIRED'')
             (Some [(''trialEndDate'', JDate t), (''upgradeUrl'', JStr (upgradeUrl_of e))]))
       \<and> users (snd (css_decide e now1 req1 user d)) =
           set_user_status ''expired'' (uid user) (users d)
       \<and> users (snd (css_decide e now2 req2 user (snd (css_decide e now1 req1 user d)))) =
           set_user_status ''expired'' (uid user) (users d)"
    using one two by (simp add: set_user_status_idem)
  let ?subs = "\<lambda>ss. case joined_subscription_id jr of
                 None \<Rightarrow> ss
               | Some k \<Rightarrow> if k = [] then ss else set_subscription_status ''expired'' k ss"
  let ?j = "\<lambda>d fs. d\<lparr>faults := fs,
                users := set_user_status ''expired'' (uid (fst jr)) (users d),
                subscriptions := ?subs (subscriptions d)\<rparr>"
  let ?resp = "Inr (deny 402
             ''Your free trial has expired. Please upgrade to continue using LeadEstate.''
             (Some ''TRIAL_EXPIRED'')
             (Some [(''trialEndDate'', JDate tj), (''upgradeUrl'', JStr (upgradeUrl_of e))]))"
  from css_decide_joined_expired [OF assms(5,6,7,9), of e req1] obtain fs where
    j1: "css_decide_joined e now1 req1 jr d = (?resp, ?j d fs)"
    and fs: "list_all (\<lambda>f. f = None) fs" by blast
  have nfj: "no_faults (?j d fs)" using fs by (simp add: no_faults_def)
  from css_decide_joined_expired [OF assms(5,6,8) nfj, of e req2] obtain fs' where
    j2: "css_decide_joined e now2 req2 jr (?j d fs) = (?resp, ?j (?j d fs) fs')" by blast
  have joined: "fst (css_decide_joined e now1 req1 jr d) = ?resp
       \<and> fst (css_decide_joined e now2 req2 jr (snd (css_decide_joined e now1 req1 jr d)))
           = ?resp
       \<and> users (snd (css_decide_joined e now1 req1 jr d)) =
           set_user_status ''expired'' (uid (fst jr)) (users d)
       \<and> users (snd (css_decide_joined e now2 req2 jr
                        (snd (css_decide_joined e now1 req1 jr d)))) =
           set_user_status ''expired'' (uid (fst jr)) (users d)
       \<and> subscriptions (snd (css_decide_joined e now1 req1 jr d)) = ?subs (subscriptions d)
       \<and> subscriptions (snd (css_decide_joined e now2 req2 jr
                                (snd (css_decide_joined e now1 req1 jr d)))) =
           ?subs (subscriptions d)"
    unfolding j1 snd_conv fst_conv j2
    by (simp add: set_user_status_idem set_subscription_status_idem split: option.splits)
  have whole: "presents_user e req1 i \<and> fst (select_joined (Some i) d) = Inr (jr # rest) \<longrightarrow>
            fst (checkSubscriptionStatus_joined e now1 req1 d) =
              deny 402
                ''Your free trial has expired. Please upgrade to continue using LeadEstate.''
                (Some ''TRIAL_EXPIRED'')
                (Some [(''trialEndDate'', JDate tj), (''upgradeUrl'', JStr (upgradeUrl_of e))])
          \<and> users (snd (checkSubscriptionStatus_joined e now1 req1 d)) =
              set_user_status ''expired'' (uid (fst jr)) (users d)
          \<and> subscriptions (snd (checkSubscriptionStatus_joined e now1 req1 d)) =
              ?subs (subscriptions d)"
  proof
    assume h: "presents_user e req1 i \<and> fst (select_joined (Some i) d) = Inr (jr # rest)"
    let ?d0 = "d\<lparr>faults := tl (faults d)\<rparr>"
    have nf0: "no_faults ?d0" using assms(9) by (rule no_faults_tl)
    have sel: "select_joined (Some i) d = (Inr (jr # rest), ?d0)"
      using h select_joined_no_faults [OF assms(9), of "Some i"]
      by (cases "select_joined (Some i) d") simp
    from css_decide_joined_expired [OF assms(5,6,7) nf0, of e req1] obtain fs0 where
      j0: "css_decide_joined e now1 req1 jr ?d0 = (?resp, ?j ?d0 fs0)" by blast
    have "css_try_joined e now1 req1 d = (?resp, ?j ?d0 fs0)"
      using css_try_joined_found [OF _ sel, of e req1 now1] h j0 by simp
    then show "fst (checkSubscriptionStatus_joined e now1 req1 d) =
              deny 402
                ''Your free trial has expired. Please upgrade to continue using LeadEstate.''
                (Some ''TRIAL_EXPIRED'')
                (Some [(''trialEndDate'', JDate tj), (''upgradeUrl'', JStr (upgradeUrl_of e))])
          \<and> users (snd (checkSubscriptionStatus_joined e now1 req1 d)) =
              set_user_status ''expired'' (uid (fst jr)) (users d)
          \<and> subscriptions (snd (checkSubscriptionStatus_joined e now1 req1 d)) =
              ?subs (subscriptions d)"
      by (simp add: checkSubscriptionStatus_joined_def split: option.splits)
  qed
  show ?thesis
    using flat joined whole
      set_user_status_all [of "''expired''" "uid user" "users d"]
      set_subscription_status_all [of "''expired''" k "subscriptions d"]
    by blast
qed

text \<open>
  The sample tenant, whose trial and whose subscription \<^verbatim>\<open>s1\<close> ended at time 1000: two
  evaluations of either variant, and the joining middleware on its store.
\<close>

theorem expiry_write_witness:
  "subscription_status demo_user = Some ''trial'' \<and> trial_end_date demo_user = Some 1000
   \<and> joined_status demo_joined = Some ''trial''
   \<and> joined_trialEndDate demo_joined = Some 1000
   \<and> no_faults joined_db
   \<and> presents_user demo_env demo_req ''u1''
   \<and> fst (select_joined (Some ''u1'') joined_db) = Inr [demo_joined]
   \<and> fst (css_decide demo_env 3000 demo_req demo_user
            (snd (css_decide demo_env 2000 demo_req demo_user joined_db))) =
        Inr (deny 402
          ''Your free trial has expired. Please upgrade to continue using LeadEstate.''
          (Some ''TRIAL_EXPIRED'')
          (Some [(''trialEndDate'', JDate 1000),
                 (''upgradeUrl'', JStr ''https://app.leadestate.test/upgrade'')]))
   \<and> fst (css_decide_joined demo_env 3000 demo_req demo_joined
            (snd (css_decide_joined demo_env 2000 demo_req demo_joined joined_db))) =
        Inr (deny 402
          ''Your free trial has expired. Please upgrade to continue using LeadEstate.''
          (Some ''TRIAL_EXPIRED'')
          (Some [(''trialEndDate'', JDate 1000),
                 (''upgradeUrl'', JStr ''https://app.leadestate.test/upgrade'')]))
   \<and> map subscription_status
        (users (snd (css_decide_joined demo_env 3000 demo_req demo_joined
                       (snd (css_decide_joined demo_env 2000 demo_req demo_joined joined_db)))))
       = [Some ''expired'']
   \<and> map sub_status
        (subscriptions (snd (css_decide_joined demo_env 3000 demo_req demo_joined
                       (snd (css_decide_joined demo_env 2000 demo_req demo_joined joined_db)))))
       = [''expired'']
   \<and> fst (checkSubscriptionStatus_joined demo_env 2000 demo_req joined_db) =
        deny 402
          ''Your free trial has expired. Please upgrade to continue using LeadEstate.''
          (Some ''TRIAL_EXPIRED'')
          (Some [(''trialEndDate'', JDate 1000),
                 (''upgradeUrl'', JStr ''https://app.leadestate.test/upgrade'')])
   \<and> map subscription_status
        (users (snd (checkSubscriptionStatus_joined demo_env 2000 demo_req joined_db)))
       = [Some ''expired'']
   \<and> map sub_status
        (subscriptions (snd (checkSubscriptionStatus_joined demo_env 2000 demo_req joined_db)))
       = [''expired'']"
proof -
  have a: "no_faults joined_db" by (simp add: no_faults_def joined_db_def demo_db_def)
  have c: "subscription_status demo_user = Some ''trial''" by (simp add: demo_user_def)
  have d: "trial_end_date demo_user = Some 1000" by (simp add: demo_user_def)
  have jc: "joined_status demo_joined = Some ''trial''"
    by (simp add: joined_status_def demo_joined_def demo_subscription_def)
  have jd: "joined_trialEndDate demo_joined = Some 1000"
    by (simp add: joined_trialEndDate_def demo_joined_def demo_subscription_def)
  have e1: "(1000::int) < 2000" by simp
  have e2: "(1000::int) < 3000" by simp
  have sel: "fst (select_joined (Some ''u1'') joined_db) = Inr (demo_joined # [])"
    by (simp add: select_joined_def next_fault_def joined_db_def demo_db_def join_rows_def
        join_plans_def demo_joined_def demo_user_def demo_subscription_def demo_plan_def)
  have u: "map subscription_status
             (set_user_status ''expired'' (uid (fst demo_joined)) (users joined_db))
            = [Some ''expired'']"
    by (simp add: set_user_status_def joined_db_def demo_db_def demo_joined_def demo_user_def)
  have s: "map sub_status
             (case joined_subscription_id demo_joined of
                None \<Rightarrow> subscriptions joined_db
              | Some k \<Rightarrow> if k = [] then subscriptions joined_db
                          else set_subscription_status ''expired'' k (subscriptions joined_db))
            = [''expired'']"
    by (simp add: joined_subscription_id_def demo_joined_def set_subscription_status_def
        joined_db_def demo_subscription_def)
  note th = expiry_write_unconditional_idempotent [OF c d e1 e2 jc jd e1 e2 a,
      of demo_env demo_req demo_req "''s1''" "''u1''" "[]"]
  from th have flat2: "fst (css_decide demo_env 3000 demo_req demo_user
            (snd (css_decide demo_env 2000 demo_req demo_user joined_db))) =
        Inr (deny 402
          ''Your free trial has expired. Please upgrade to continue using LeadEstate.''
          (Some ''TRIAL_EXPIRED'')
          (Some [(''trialEndDate'', JDate 1000),
                 (''upgradeUrl'', JStr (upgradeUrl_of demo_env))]))"
    by blast
  from th have j2: "fst (css_decide_joined demo_env 3000 demo_req demo_joined
            (snd (css_decide_joined demo_env 2000 demo_req demo_joined joined_db))) =
        Inr (deny 402
          ''Your free trial has expired. Please upgrade to continue using LeadEstate.''
          (Some ''TRIAL_EXPIRED'')
          (Some [(''trialEndDate'', JDate 1000),
                 (''upgradeUrl'', JStr (upgradeUrl_of demo_env))]))"
    by blast
  from th have ju: "users (snd (css_decide_joined demo_env 3000 demo_req demo_joined
                       (snd (css_decide_joined demo_env 2000 demo_req demo_joined joined_db))))
      = set_user_status ''expired'' (uid (fst demo_joined)) (users joined_db)"
    by blast
  from th have js: "subscriptions (snd (css_decide_joined demo_env 3000 demo_req demo_joined
                       (snd (css_decide_joined demo_env 2000 demo_req demo_joined joined_db))))
      = (case joined_subscription_id demo_joined of
                None \<Rightarrow> subscriptions joined_db
              | Some k \<Rightarrow> if k = [] then subscriptions joined_db
                          else set_subscription_status ''expired'' k (subscriptions joined_db))"
    by blast
  from th demo_presents sel
  have w: "fst (checkSubscriptionStatus_joined demo_env 2000 demo_req joined_db) =
              deny 402
                ''Your free trial has expired. Please upgrade to continue using LeadEstate.''
                (Some ''TRIAL_EXPIRED'')
                (Some [(''trialEndDate'', JDate 1000),
                       (''upgradeUrl'', JStr (upgradeUrl_of demo_env))])
          \<and> users (snd (checkSubscriptionStatus_joined demo_env 2000 demo_req joined_db)) =
              set_user_status ''expired'' (uid (fst demo_joined)) (users joined_db)
          \<and> subscriptions (snd (checkSubscriptionStatus_joined demo_env 2000 demo_req joined_db)) =
              (case joined_subscription_id demo_joined of
                 None \<Rightarrow> subscriptions joined_db
               | Some k \<Rightarrow> if k = [] then subscriptions joined_db
                           else set_subscription_status ''expired'' k (subscriptions joined_db))"
    by blast
  show ?thesis
    using a c d jc jd demo_presents sel flat2 j2 ju js w u s
    by (simp add: demo_upgradeUrl)
qed

subsection \<open>C3: the usage limit is exclusive\<close>



subsection \<open>C4: an unlimited resource is never denied\<close>

text \<open>
  C4. When the limit resolved for the resource is \<^verbatim>\<open>null\<close>, the unlimited sentinel, the
  check calls \<^verbatim>\<open>next()\<close> with the request as it is: whatever the resource type, whatever
  the store holds, and without querying it.
\<close>

theorem unlimited_never_denies:
  assumes "subscription req = Some sub"
    and "obj_get (limits sub) (''max'' @ capitalize resourceType) = JNull"
  shows "checkUsageLimit resourceType e req d = (Next req, d)"
  using assms by (simp add: checkUsageLimit_def cul_try_def)

text \<open>A tenant of the agency plan with 5000 leads, and with a store that is down.\<close>

theorem unlimited_never_denies_witness:
  "subscription agency_req = Some agency_sub
   \<and> obj_get (limits agency_sub) (''max'' @ capitalize ''leads'') = JNull
   \<and> checkUsageLimit ''leads'' demo_env agency_req (leads_db 5000)
       = (Next agency_req, leads_db 5000)
   \<and> checkUsageLimit ''leads'' demo_env agency_req down_db = (Next agency_req, down_db)"
proof -
  have a: "subscription agency_req = Some agency_sub" by (simp add: agency_req_def)
  have b: "obj_get (limits agency_sub) (''max'' @ capitalize ''leads'') = JNull"
    by (simp add: capitalize_leads agency_sub_def obj_get_def)
  from unlimited_never_denies [OF a b, of demo_env "leads_db 5000"]
    unlimited_never_denies [OF a b, of demo_env down_db] a b
  show ?thesis by simp
qed

subsection \<open>C5: which features a plan unlocks\<close>

text \<open>
  C5, as stated, counts a string value as available only when it is non-empty, and cites
  the plan model's \<^verbatim>\<open>hasFeature\<close> for the same rule. \<^verbatim>\<open>requireFeature\<close> lets a
  feature through whose value is the empty string, and \<^verbatim>\<open>hasFeature\<close> answers
  \<^verbatim>\<open>false\<close> for the starter plan's \<^verbatim>\<open>analytics: 'basic'\<close>.
\<close>

theorem feature_resolution_counterexample:
  "requireFeature ''analytics'' demo_env (req_with_features (JObj [(''analytics'', JStr '''')]))
     = Next (req_with_features (JObj [(''analytics'', JStr '''')]))
   \<and> obj_get starter_features ''analytics'' = JStr ''basic''
   \<and> hasFeature demo_env (JObj starter_features) ''analytics'' = JBool False"
  by (simp add: requireFeature_def req_with_features_def demo_sub_def demo_req_def
      js_get_def js_prop_def obj_get_def feature_enabled_def hasFeature_def
      starter_features_def)

text \<open>
  C5, amended. For every feature object \<open>kvs\<close> and every feature name \<open>n\<close>:
  \<^verbatim>\<open>requireFeature\<close> calls \<^verbatim>\<open>next()\<close> exactly when \<^verbatim>\<open>features[n]\<close> is the boolean
  \<^verbatim>\<open>true\<close> or a string other than \<^verbatim>\<open>'none'\<close>, the empty string included; otherwise it
  answers 403 with code \<^verbatim>\<open>FEATURE_NOT_AVAILABLE\<close>, the feature and the current plan; a
  name that is no key of the object is so denied. The plan model's \<^verbatim>\<open>hasFeature\<close> is
  stricter: it holds for the boolean \<^verbatim>\<open>true\<close> only.
\<close>

theorem feature_resolution:
  assumes "subscription req = Some sub" and "features sub = JObj kvs"
  shows "((requireFeature n e req = Next req) =
            (obj_get kvs n = JBool True \<or> (\<exists>s. obj_get kvs n = JStr s \<and> s \<noteq> ''none'')))
       \<and> (requireFeature n e req = Next req \<or>
          requireFeature n e req =
            deny 403
              (''This feature requires a higher subscription plan. Current plan: ''
                 @ opt_to_string (planName sub))
              (Some ''FEATURE_NOT_AVAILABLE'')
              (Some [(''feature'', JStr n), (''currentPlan'', opt_to_js (planName sub)),
                     (''upgradeUrl'', JStr (upgradeUrl_of e))]))
       \<and> (map_of kvs n = None \<longrightarrow>
          requireFeature n e req =
            deny 403
              (''This feature requires a higher subscription plan. Current plan: ''
                 @ opt_to_string (planName sub))
              (Some ''FEATURE_NOT_AVAILABLE'')
              (Some [(''feature'', JStr n), (''currentPlan'', opt_to_js (planName sub)),
                     (''upgradeUrl'', JStr (upgradeUrl_of e))]))
       \<and> hasFeature e (JObj kvs) n = JBool (obj_get kvs n = JBool True)"
proof -
  have get: "js_get e (features sub) n = Inr (obj_get kvs n)"
    using assms(2) by (simp add: js_get_def js_prop_def)
  have absent: "map_of kvs n = None \<Longrightarrow> \<not> feature_enabled (obj_get kvs n)"
    by (simp add: obj_get_def feature_enabled_def)
  have req: "requireFeature n e req =
     (if feature_enabled (obj_get kvs n) then Next req
      else deny 403
              (''This feature requires a higher subscription plan. Current plan: ''
                 @ opt_to_string (planName sub))
              (Some ''FEATURE_NOT_AVAILABLE'')
              (Some [(''feature'', JStr n), (''currentPlan'', opt_to_js (planName sub)),
                     (''upgradeUrl'', JStr (upgradeUrl_of e))]))"
    using assms(1) get by (simp add: requireFeature_def)
  have ne: "\<And>a b c d. deny a b c d \<noteq> Next req" "\<And>a b c d. Next req \<noteq> deny a b c d"
    by (simp_all add: deny_def)
  have hf: "hasFeature e (JObj kvs) n = JBool (obj_get kvs n = JBool True)"
    by (simp add: hasFeature_def js_prop_def)
  show ?thesis
  proof (intro conjI impI)
    show "(requireFeature n e req = Next req) =
            (obj_get kvs n = JBool True \<or> (\<exists>s. obj_get kvs n = JStr s \<and> s \<noteq> ''none''))"
      unfolding req using ne by (simp add: feature_enabled_iff [symmetric])
  next
    show "requireFeature n e req = Next req \<or>
          requireFeature n e req =
            deny 403
              (''This feature requires a higher subscription plan. Current plan: ''
                 @ opt_to_string (planName sub))
              (Some ''FEATURE_NOT_AVAILABLE'')
              (Some [(''feature'', JStr n), (''currentPlan'', opt_to_js (planName sub)),
                     (''upgradeUrl'', JStr (upgradeUrl_of e))])"
      unfolding req by simp
  next
    assume "map_of kvs n = None"
    then have "\<not> feature_enabled (obj_get kvs n)" by (rule absent)
    then show "requireFeature n e req =
            deny 403
              (''This feature requires a higher subscription plan. Current plan: ''
                 @ opt_to_string (planName sub))
              (Some ''FEATURE_NOT_AVAILABLE'')
              (Some [(''feature'', JStr n), (''currentPlan'', opt_to_js (planName sub)),
                     (''upgradeUrl'', JStr (upgradeUrl_of e))])"
      unfolding req by simp
  next
    show "hasFeature e (JObj kvs) n = JBool (obj_get kvs n = JBool True)" by (rule hf)
  qed
qed

text \<open>The starter plan: \<^verbatim>\<open>analytics\<close> passes, \<^verbatim>\<open>whatsapp\<close> and an unknown name do not.\<close>

theorem feature_resolution_witness:
  "subscription (req_with_features (JObj starter_features))
     = Some (demo_sub (JObj starter_features))
   \<and> map_of starter_features ''sso'' = None
   \<and> requireFeature ''analytics'' demo_env (req_with_features (JObj starter_features))
       = Next (req_with_features (JObj starter_features))
   \<and> requireFeature ''whatsapp'' demo_env (req_with_features (JObj starter_features))
       \<noteq> Next (req_with_features (JObj starter_features))
   \<and> requireFeature ''sso'' demo_env (req_with_features (JObj starter_features))
       = deny 403 ''This feature requires a higher subscription plan. Current plan: starter''
           (Some ''FEATURE_NOT_AVAILABLE'')
           (Some [(''feature'', JStr ''sso''), (''currentPlan'', JStr ''starter''),
                  (''upgradeUrl'', JStr ''https://app.leadestate.test/upgrade'')])"
proof -
  let ?req = "req_with_features (JObj starter_features)"
  let ?sub = "demo_sub (JObj starter_features)"
  have a: "subscription ?req = Some ?sub" by (simp add: req_with_features_def)
  have b: "features ?sub = JObj starter_features" by (simp add: demo_sub_def)
  have c: "map_of starter_features ''sso'' = None" by (simp add: starter_features_def)
  have g1: "obj_get starter_features ''analytics'' = JStr ''basic''"
    by (simp add: obj_get_def starter_features_def)
  have g2: "obj_get starter_features ''whatsapp'' = JBool False"
    by (simp add: obj_get_def starter_features_def)
  have p: "planName ?sub = Some ''starter''" by (simp add: demo_sub_def)
  from feature_resolution [OF a b, of "''analytics''" demo_env]
    feature_resolution [OF a b, of "''whatsapp''" demo_env]
    feature_resolution [OF a b, of "''sso''" demo_env]
    a c g1 g2 p demo_upgradeUrl
  show ?thesis by (simp add: opt_to_string_def opt_to_js_def)
qed

subsection \<open>C6: a subscription that is past due\<close>




subsection \<open>C7: the trial a signup creates\<close>

text \<open>
  C7, as stated, gives every trial exactly 14 days. Two of the cited creation paths do not.
  \<^item> The signup route computes the trial end with \<^verbatim>\<open>setDate(getDate() + 14)\<close>, which
    adds 14 calendar days in the server's local time. On a server whose zone falls back by
    one hour within those days, a signup at time 0 stores a trial end of 14 days and one
    hour, and an evaluation one second later reports \<^verbatim>\<open>daysRemaining = 15\<close>.
  \<^item> \<^verbatim>\<open>createSubscription(..., 'trial')\<close> of the subscription service at time 0 yields a
    subscription of status \<^verbatim>\<open>trial\<close> whose period ends after 13 days, and the service's
    \<^verbatim>\<open>getDaysRemaining\<close> then answers 13.
\<close>

theorem trial_creation_counterexample:
  "setDate_plus dst_env 0 14 = 14 * msPerDay + 3600000
   \<and> map trial_end_date (users (snd (trial_signup dst_env 0 5 demo_io demo_signup empty_db)))
       = [Some (14 * msPerDay + 3600000)]
   \<and> (case fst (leads_index_gate dst_env 1000 2000 demo_req
                  (snd (trial_signup dst_env 0 5 demo_io demo_signup empty_db))) of
         Next r \<Rightarrow> map_option daysRemaining (trialInfo r) = Some 15
       | Respond r \<Rightarrow> False)
   \<and> (case createSubscription 0 ''s1'' ''u1'' (Some ''a1'') ''starter'' ''trial'' empty_store of
         (Inr r, s') \<Rightarrow>
           sv_status r = ''trial'' \<and> sv_period_end r = 13 * msPerDay
           \<and> sv_period_end r \<noteq> 14 * msPerDay
           \<and> fst (svc_getDaysRemaining 0 ''u1'' s') = 13
       | (Inl x, s') \<Rightarrow> False)"
proof -
  have sd: "setDate_plus dst_env 0 14 = 1213200000"
    by (simp add: setDate_plus_def dst_env_def msPerDay_def Let_def)
  have su: "trial_signup dst_env 0 5 demo_io demo_signup empty_db =
     (fst (trial_signup dst_env 0 5 demo_io demo_signup empty_db),
      empty_db\<lparr>users :=
          [\<lparr>uid = ''u1'', email = ''ann@agency.test'', subscription_status = Some ''trial'',
            trial_end_date = Some 1213200000, plan_name = Some ''starter'',
            agency_id = Some ''a1''\<rparr>],
        agencies := agencies (snd (trial_signup dst_env 0 5 demo_io demo_signup empty_db))\<rparr>)"
    by (simp add: trial_signup_def signup_try_def select_by_email_def insert_user_def
        insert_agency_def next_fault_def empty_db_def demo_signup_def demo_io_def sd Let_def)
  have nf: "no_faults (snd (trial_signup dst_env 0 5 demo_io demo_signup empty_db))"
    by (subst su) (simp add: no_faults_def empty_db_def)
  have fu: "find_user (snd (trial_signup dst_env 0 5 demo_io demo_signup empty_db)) ''u1'' =
      Some \<lparr>uid = ''u1'', email = ''ann@agency.test'', subscription_status = Some ''trial'',
            trial_end_date = Some 1213200000, plan_name = Some ''starter'',
            agency_id = Some ''a1''\<rparr>"
    by (subst su) (simp add: find_user_def)
  have dec: "css_decide dst_env 1000 demo_req
       \<lparr>uid = ''u1'', email = ''ann@agency.test'', subscription_status = Some ''trial'',
            trial_end_date = Some 1213200000, plan_name = Some ''starter'',
            agency_id = Some ''a1''\<rparr> d0
      = (Inr (Next (demo_req\<lparr>subscription := Some
        \<lparr>userId = ''u1'', agencyId = Some ''a1'',
         status = Some ''trial'', planName = Some ''starter'',
         features = resolve_features (Some ''starter''),
         limits = [(''maxLeads'', js_prop dst_env (resolve_features (Some ''starter'')) ''max_leads''),
                   (''maxUsers'', js_prop dst_env (resolve_features (Some ''starter'')) ''max_users''),
                   (''maxProperties'',
                      js_prop dst_env (resolve_features (Some ''starter'')) ''max_properties'')],
         trialEndDate = Some 1213200000, isActive = True\<rparr>\<rparr>)), d0)" for d0
    using css_decide_authorized [of "\<lparr>uid = ''u1'', email = ''ann@agency.test'',
            subscription_status = Some ''trial'',
            trial_end_date = Some 1213200000, plan_name = Some ''starter'',
            agency_id = Some ''a1''\<rparr>" 1000 dst_env demo_req d0]
    by (simp add: is_active_status_def)
  have days: "ceil_days (1213200000 - 2000) = 15"
    by (simp add: ceil_days_def msPerDay_def)
  have gate: "case fst (leads_index_gate dst_env 1000 2000 demo_req
                  (snd (trial_signup dst_env 0 5 demo_io demo_signup empty_db))) of
         Next r \<Rightarrow> map_option daysRemaining (trialInfo r) = Some 15
       | Respond r \<Rightarrow> False"
    using css_try_found [OF dst_presents nf fu, of 1000] dec days
    by (simp add: leads_index_gate_def checkSubscriptionStatus_def addTrialInfo_def Let_def)
  have svc: "case createSubscription 0 ''s1'' ''u1'' (Some ''a1'') ''starter'' ''trial'' empty_store of
         (Inr r, s') \<Rightarrow>
           sv_status r = ''trial'' \<and> sv_period_end r = 13 * msPerDay
           \<and> sv_period_end r \<noteq> 14 * msPerDay
           \<and> fst (svc_getDaysRemaining 0 ''u1'' s') = 13
       | (Inl x, s') \<Rightarrow> False"
    by (simp add: createSubscription_def getPlan_def svc_plans_def svc_findOne_def
      svc_next_fault_def svc_create_def empty_store_def msPerDay_def
      svc_getDaysRemaining_def getUserSubscription_def)
  have ends: "map trial_end_date
        (users (snd (trial_signup dst_env 0 5 demo_io demo_signup empty_db)))
       = [Some 1213200000]"
    by (subst su) simp
  show ?thesis using sd ends gate svc by (simp add: msPerDay_def)
qed

text \<open>
  C7, amended. On a server whose local time keeps one offset from UTC, and for an evaluation
  within the first day after creation:
  \<^item> \<^verbatim>\<open>POST /api/auth/trial-signup\<close> with a valid body, a new email and a store that
    answers creates the user with status \<^verbatim>\<open>trial\<close>, a trial end exactly 14 days after
    the creation time and the plan \<^verbatim>\<open>starter\<close>; the evaluation is authorized, resolves
    the starter plan and reports \<^verbatim>\<open>daysRemaining = 14\<close>, not expiring soon;
  \<^item> \<^verbatim>\<open>Subscription.createTrial\<close> without a plan creates a trial on the starter plan that
    ends exactly 14 days after the creation time, with 14 days remaining;
  \<^item> \<^verbatim>\<open>createSubscription(..., 'trial')\<close> of the subscription service creates a trial on
    the plan the caller names, whose period ends 13 days after the creation time, with 13
    days remaining.
\<close>

theorem trial_creation_days:
  assumes "\<forall>t b. localTZA e t b = c"
    and "now \<le> nowE" and "nowE \<le> nowE'" and "nowE' < now + msPerDay"
  shows "(\<not> validation_failed body \<and> no_faults d
          \<and> \<not> list_ex (\<lambda>u. email u = su_email body) (users d)
          \<and> \<not> list_ex (\<lambda>u. uid u = new_user_id io) (users d)
          \<and> \<not> list_ex (\<lambda>a. agency_row_id a = new_agency_id io) (agencies d)
          \<and> presents_user e req (new_user_id io) \<longrightarrow>
            http_status (fst (trial_signup e now now' io body d)) = 201
          \<and> users (snd (trial_signup e now now' io body d)) =
              users d @
                [\<lparr>uid = new_user_id io, email = su_email body,
                  subscription_status = Some ''trial'',
                  trial_end_date = Some (now + 14 * msPerDay),
                  plan_name = Some ''starter'', agency_id = Some (new_agency_id io)\<rparr>]
          \<and> (\<exists>r. fst (leads_index_gate e nowE nowE' req
                          (snd (trial_signup e now now' io body d))) = Next r
                \<and> trialInfo r =
                    Some \<lparr>daysRemaining = 14, endDate = now + 14 * msPerDay,
                          isExpiringSoon = False, upgradeUrl = upgradeUrl_of e\<rparr>
                \<and> map_option status (subscription r) = Some (Some ''trial'')
                \<and> map_option planName (subscription r) = Some (Some ''starter'')
                \<and> map_option features (subscription r) = Some (JObj starter_features)))
       \<and> (no_faults d
          \<and> find (\<lambda>p. plan_row_name p = ''starter'') (subscription_plans d) = Some sp
          \<and> \<not> list_ex (\<lambda>q. sub_id q = new_id) (subscriptions d) \<longrightarrow>
            (case fst (createTrial e now new_id u None d) of
               Inr r \<Rightarrow>
                 sub_status r = ''trial'' \<and> is_trial r \<and> sub_plan_id r = plan_id sp
                 \<and> sub_trial_end_date r = Some (now + 14 * msPerDay)
                 \<and> \<not> isTrialExpired nowE r \<and> getDaysRemaining nowE r = 14
             | Inl x \<Rightarrow> False))
       \<and> (getPlan planId = Some plan \<and> svc_faults s = []
          \<and> find (\<lambda>r. sv_user_id r = u \<and> sv_status r \<in> set [''active'', ''trial''])
               (svc_rows s) = None \<longrightarrow>
            (case fst (createSubscription now new_id u a planId ''trial'' s) of
               Inr r \<Rightarrow>
                 sv_status r = ''trial'' \<and> sv_plan_id r = planId
                 \<and> sv_period_end r = now + 13 * msPerDay
             | Inl x \<Rightarrow> False)
          \<and> fst (svc_getDaysRemaining nowE u
                    (snd (createSubscription now new_id u a planId ''trial'' s))) = 13)"
proof (intro conjI impI)
  assume h: "\<not> validation_failed body \<and> no_faults d
          \<and> \<not> list_ex (\<lambda>u. email u = su_email body) (users d)
          \<and> \<not> list_ex (\<lambda>u. uid u = new_user_id io) (users d)
          \<and> \<not> list_ex (\<lambda>a. agency_row_id a = new_agency_id io) (agencies d)
          \<and> presents_user e req (new_user_id io)"
  let ?u = "\<lparr>uid = new_user_id io, email = su_email body,
             subscription_status = Some ''trial'',
             trial_end_date = Some (now + 14 * msPerDay),
             plan_name = Some ''starter'', agency_id = Some (new_agency_id io)\<rparr>"
  from h have fresh: "\<not> list_ex (\<lambda>u. uid u = new_user_id io) (users d)" by blast
  from h signup_try_created [of body d io e now now'] obtain r d'
    where r: "signup_try e now now' io body d = (Inr r, d')" "http_status r = 201"
      "users d' = users d @ [?u]" "no_faults d'"
    using setDate_plus_const [OF assms(1), of now 14] by auto
  have ts: "trial_signup e now now' io body d = (r, d')"
    using r(1) by (simp add: trial_signup_def)
  show "http_status (fst (trial_signup e now now' io body d)) = 201"
    using ts r(2) by simp
  show "users (snd (trial_signup e now now' io body d)) = users d @ [?u]"
    using ts r(3) by simp
  have fu: "find_user d' (new_user_id io) = Some ?u"
    unfolding find_user_def r(3) using fresh by (intro find_append_new) simp_all
  from h have pu: "presents_user e req (new_user_id io)" by blast
  have le: "now \<le> nowE'" using assms(2,3) by simp
  from gate_after_signup [OF pu r(4) fu _ _ _ assms(2,3,4)]
  show "\<exists>r. fst (leads_index_gate e nowE nowE' req
                  (snd (trial_signup e now now' io body d))) = Next r
          \<and> trialInfo r =
              Some \<lparr>daysRemaining = 14, endDate = now + 14 * msPerDay,
                    isExpiringSoon = False, upgradeUrl = upgradeUrl_of e\<rparr>
          \<and> map_option status (subscription r) = Some (Some ''trial'')
          \<and> map_option planName (subscription r) = Some (Some ''starter'')
          \<and> map_option features (subscription r) = Some (JObj starter_features)"
    unfolding ts snd_conv by simp
next
  assume h: "no_faults d
          \<and> find (\<lambda>p. plan_row_name p = ''starter'') (subscription_plans d) = Some sp
          \<and> \<not> list_ex (\<lambda>q. sub_id q = new_id) (subscriptions d)"
  have days: "ceil_days (14 * msPerDay - (nowE - now)) = 14"
    using assms(2,3,4) by (intro ceil_days_window) simp_all
  have eq: "now + 14 * msPerDay - nowE = 14 * msPerDay - (nowE - now)" by simp
  have notexp: "\<not> now + 14 * msPerDay < nowE"
    using assms(3,4) by (simp add: msPerDay_def)
  from h createTrial_default [of d sp new_id e now u]
  have "fst (createTrial e now new_id u None d) =
     Inr \<lparr>sub_id = new_id, sub_user_id = u, sub_plan_id = plan_id sp,
          sub_status = ''trial'', is_trial = True, trial_start_date = Some now,
          sub_trial_end_date = Some (now + 14 * msPerDay),
          current_period_start = now, current_period_end = now + 14 * msPerDay,
          amount = 0\<rparr>"
    using setDate_plus_const [OF assms(1), of now 14] by simp
  then show "case fst (createTrial e now new_id u None d) of
               Inr r \<Rightarrow>
                 sub_status r = ''trial'' \<and> is_trial r \<and> sub_plan_id r = plan_id sp
                 \<and> sub_trial_end_date r = Some (now + 14 * msPerDay)
                 \<and> \<not> isTrialExpired nowE r \<and> getDaysRemaining nowE r = 14
             | Inl x \<Rightarrow> False"
    using days notexp by (simp add: isTrialExpired_def getDaysRemaining_def eq)
next
  assume h: "getPlan planId = Some plan \<and> svc_faults s = []
          \<and> find (\<lambda>r. sv_user_id r = u \<and> sv_status r \<in> set [''active'', ''trial''])
               (svc_rows s) = None"
  then have h1: "getPlan planId = Some plan" and h2: "svc_faults s = []"
    and h3: "find (\<lambda>r. sv_user_id r = u \<and> sv_status r \<in> set [''active'', ''trial''])
               (svc_rows s) = None" by blast+
  have le: "nowE < now + msPerDay" using assms(3,4) by simp
  show "case fst (createSubscription now new_id u a planId ''trial'' s) of
               Inr r \<Rightarrow>
                 sv_status r = ''trial'' \<and> sv_plan_id r = planId
                 \<and> sv_period_end r = now + 13 * msPerDay
             | Inl x \<Rightarrow> False"
    unfolding createSubscription_trial [OF h1 h2 h3] by simp
  show "fst (svc_getDaysRemaining nowE u
               (snd (createSubscription now new_id u a planId ''trial'' s))) = 13"
    using h1 h2 h3 assms(2) le by (rule createSubscription_trial_days)
qed

text \<open>A signup at time 0 into an empty store, evaluated one and two seconds later.\<close>

theorem trial_creation_days_witness:
  "(\<forall>t b. localTZA demo_env t b = 0)
   \<and> \<not> validation_failed demo_signup \<and> no_faults empty_db
   \<and> presents_user demo_env demo_req (new_user_id demo_io)
   \<and> http_status (fst (trial_signup demo_env 0 5 demo_io demo_signup empty_db)) = 201
   \<and> map trial_end_date (users (snd (trial_signup demo_env 0 5 demo_io demo_signup empty_db)))
       = [Some (14 * msPerDay)]
   \<and> (\<exists>r. fst (leads_index_gate demo_env 1000 2000 demo_req
                  (snd (trial_signup demo_env 0 5 demo_io demo_signup empty_db))) = Next r
         \<and> map_option daysRemaining (trialInfo r) = Some 14)
   \<and> (case fst (createTrial demo_env 0 ''s1'' ''u1'' None empty_db) of
         Inr r \<Rightarrow> sub_trial_end_date r = Some (14 * msPerDay)
                   \<and> getDaysRemaining 1000 r = 14
       | Inl x \<Rightarrow> False)
   \<and> getPlan ''starter'' \<noteq> None
   \<and> fst (svc_getDaysRemaining 1000 ''u1''
            (snd (createSubscription 0 ''s1'' ''u1'' (Some ''a1'') ''starter'' ''trial''
                    empty_store))) = 13"
proof -
  have tz: "\<forall>t b. localTZA demo_env t b = 0" by (simp add: demo_env_def)
  have t1: "(0::int) \<le> 1000" and t2: "(1000::int) \<le> 2000"
    and t3: "(2000::int) < 0 + msPerDay" by (simp_all add: msPerDay_def)
  have pu: "presents_user demo_env demo_req (new_user_id demo_io)"
    using demo_presents by (simp add: demo_io_def)
  have a: "\<not> validation_failed demo_signup \<and> no_faults empty_db
          \<and> \<not> list_ex (\<lambda>u. email u = su_email demo_signup) (users empty_db)
          \<and> \<not> list_ex (\<lambda>u. uid u = new_user_id demo_io) (users empty_db)
          \<and> \<not> list_ex (\<lambda>a. agency_row_id a = new_agency_id demo_io) (agencies empty_db)
          \<and> presents_user demo_env demo_req (new_user_id demo_io)"
    using pu by (simp add: demo_signup_def no_faults_def empty_db_def)
  have b: "no_faults empty_db
          \<and> find (\<lambda>p. plan_row_name p = ''starter'') (subscription_plans empty_db)
              = Some demo_plan
          \<and> \<not> list_ex (\<lambda>q. sub_id q = ''s1'') (subscriptions empty_db)"
    by (simp add: no_faults_def empty_db_def demo_plan_def)
  have p: "getPlan ''starter'' = Some (hd svc_plans)"
    by (simp add: getPlan_def svc_plans_def)
  have c: "getPlan ''starter'' = Some (hd svc_plans) \<and> svc_faults empty_store = []
          \<and> find (\<lambda>r. sv_user_id r = ''u1'' \<and> sv_status r \<in> set [''active'', ''trial''])
               (svc_rows empty_store) = None"
    using p by (simp add: empty_store_def)
  note th = trial_creation_days [OF tz t1 t2 t3,
      of demo_signup empty_db demo_io demo_req 5
         demo_plan "''s1''" "''u1''"
         "''starter''" "hd svc_plans" empty_store "Some ''a1''"]
  from th a have s1: "http_status (fst (trial_signup demo_env 0 5 demo_io demo_signup empty_db)) = 201"
    and s2: "users (snd (trial_signup demo_env 0 5 demo_io demo_signup empty_db)) =
              users empty_db @
                [\<lparr>uid = new_user_id demo_io, email = su_email demo_signup,
                  subscription_status = Some ''trial'',
                  trial_end_date = Some (0 + 14 * msPerDay),
                  plan_name = Some ''starter'', agency_id = Some (new_agency_id demo_io)\<rparr>]"
    and s3: "\<exists>r. fst (leads_index_gate demo_env 1000 2000 demo_req
                  (snd (trial_signup demo_env 0 5 demo_io demo_signup empty_db))) = Next r
         \<and> trialInfo r =
              Some \<lparr>daysRemaining = 14, endDate = 0 + 14 * msPerDay,
                    isExpiringSoon = False, upgradeUrl = upgradeUrl_of demo_env\<rparr>
         \<and> map_option status (subscription r) = Some (Some ''trial'')
         \<and> map_option planName (subscription r) = Some (Some ''starter'')
         \<and> map_option features (subscription r) = Some (JObj starter_features)"
    by blast+
  from s3 have s3': "\<exists>r. fst (leads_index_gate demo_env 1000 2000 demo_req
                  (snd (trial_signup demo_env 0 5 demo_io demo_signup empty_db))) = Next r
         \<and> map_option daysRemaining (trialInfo r) = Some 14"
    by force
  from s2 have s2': "map trial_end_date
        (users (snd (trial_signup demo_env 0 5 demo_io demo_signup empty_db)))
       = [Some (14 * msPerDay)]"
    by (simp add: empty_db_def)
  from th b have s4: "case fst (createTrial demo_env 0 ''s1'' ''u1'' None empty_db) of
         Inr r \<Rightarrow> sub_status r = ''trial'' \<and> is_trial r
                   \<and> sub_plan_id r = plan_id demo_plan
                   \<and> sub_trial_end_date r = Some (0 + 14 * msPerDay)
                   \<and> \<not> isTrialExpired 1000 r \<and> getDaysRemaining 1000 r = 14
       | Inl x \<Rightarrow> False"
    by blast
  then have s4': "case fst (createTrial demo_env 0 ''s1'' ''u1'' None empty_db) of
         Inr r \<Rightarrow> sub_trial_end_date r = Some (14 * msPerDay)
                   \<and> getDaysRemaining 1000 r = 14
       | Inl x \<Rightarrow> False"
    by (cases "fst (createTrial demo_env 0 ''s1'' ''u1'' None empty_db)") simp_all
  from th c have s5: "fst (svc_getDaysRemaining 1000 ''u1''
            (snd (createSubscription 0 ''s1'' ''u1'' (Some ''a1'') ''starter'' ''trial''
                    empty_store))) = 13"
    by blast
  from a b have a1: "\<not> validation_failed demo_signup" and a2: "no_faults empty_db" by blast+
  from p have p': "getPlan ''starter'' \<noteq> None" by simp
  show ?thesis
    using tz a1 a2 pu s1 s2' s3' s4' p' s5 by blast
qed

subsection \<open>C8: a failure inside the evaluation never authorizes\<close>

text \<open>
  C8. Whenever a step of \<^verbatim>\<open>checkSubscriptionStatus\<close> throws an error that is not one of
  the two token errors, the middleware answers 500 and does not call \<^verbatim>\<open>next()\<close>, and the
  store's rows are as they were. This is so when the read of the user row fails and when
  the write of the expiry fails. Whenever a step of \<^verbatim>\<open>checkUsageLimit\<close> throws, as when
  the count query fails, it answers 500 and does not call \<^verbatim>\<open>next()\<close>.
\<close>

theorem evaluation_fails_closed:
  "(css_try e now req d = (Inl x, d') \<and> \<not> is_auth_error x \<longrightarrow>
      checkSubscriptionStatus e now req d =
        (deny 500 ''Failed to verify subscription status'' None None, d')
      \<and> users d' = users d
      \<and> (\<forall>r. fst (checkSubscriptionStatus e now req d) \<noteq> Next r))
   \<and> (presents_user e req i \<and> faults d = Some x # fs \<and> \<not> is_auth_error x \<longrightarrow>
      checkSubscriptionStatus e now req d =
        (deny 500 ''Failed to verify subscription status'' None None, d\<lparr>faults := fs\<rparr>))
   \<and> (presents_user e req i \<and> faults d = None # Some x # fs \<and> \<not> is_auth_error x
        \<and> find_user d i = Some user \<and> subscription_status user = Some ''trial''
        \<and> trial_end_date user = Some t \<and> t < now \<longrightarrow>
      checkSubscriptionStatus e now req d =
        (deny 500 ''Failed to verify subscription status'' None None, d\<lparr>faults := fs\<rparr>))
   \<and> (cul_try resourceType e req d = (Inl x, d') \<longrightarrow>
      checkUsageLimit resourceType e req d =
        (deny 500 ''Failed to verify usage limits'' None None, d')
      \<and> (\<forall>r. fst (checkUsageLimit resourceType e req d) \<noteq> Next r))
   \<and> (subscription req = Some sub
        \<and> obj_get (limits sub) (''max'' @ capitalize resourceType) \<noteq> JNull
        \<and> truthy (obj_get tableMap resourceType) \<and> faults d = Some x # fs \<longrightarrow>
      checkUsageLimit resourceType e req d =
        (deny 500 ''Failed to verify usage limits'' None None, d\<lparr>faults := fs\<rparr>))"
proof (intro conjI impI allI)
  assume h: "css_try e now req d = (Inl x, d') \<and> \<not> is_auth_error x"
  then show "checkSubscriptionStatus e now req d =
        (deny 500 ''Failed to verify subscription status'' None None, d')"
    by (simp add: checkSubscriptionStatus_def)
  then show "\<And>r. fst (checkSubscriptionStatus e now req d) \<noteq> Next r"
    by (simp add: deny_def)
  from h show "users d' = users d"
    using css_try_throw_keeps_store [of e now req d x d'] by blast
next
  assume "presents_user e req i \<and> faults d = Some x # fs \<and> \<not> is_auth_error x"
  then show "checkSubscriptionStatus e now req d =
        (deny 500 ''Failed to verify subscription status'' None None, d\<lparr>faults := fs\<rparr>)"
    using css_try_read_fails [of e req i d x fs now]
    by (simp add: checkSubscriptionStatus_def)
next
  assume "presents_user e req i \<and> faults d = None # Some x # fs \<and> \<not> is_auth_error x
        \<and> find_user d i = Some user \<and> subscription_status user = Some ''trial''
        \<and> trial_end_date user = Some t \<and> t < now"
  then show "checkSubscriptionStatus e now req d =
        (deny 500 ''Failed to verify subscription status'' None None, d\<lparr>faults := fs\<rparr>)"
    using css_try_write_fails [of e req i d x fs user t now]
    by (simp add: checkSubscriptionStatus_def)
next
  assume "cul_try resourceType e req d = (Inl x, d')"
  then show "checkUsageLimit resourceType e req d =
        (deny 500 ''Failed to verify usage limits'' None None, d')"
    by (simp add: checkUsageLimit_def)
  then show "\<And>r. fst (checkUsageLimit resourceType e req d) \<noteq> Next r"
    by (simp add: deny_def)
next
  assume "subscription req = Some sub
        \<and> obj_get (limits sub) (''max'' @ capitalize resourceType) \<noteq> JNull
        \<and> truthy (obj_get tableMap resourceType) \<and> faults d = Some x # fs"
  then show "checkUsageLimit resourceType e req d =
        (deny 500 ''Failed to verify usage limits'' None None, d\<lparr>faults := fs\<rparr>)"
    using cul_try_count_fails [of req sub resourceType d x fs e]
    by (simp add: checkUsageLimit_def)
qed

text \<open>
  The connection to the store breaks on the first query, or after the read and before the
  expiry write.
\<close>

theorem evaluation_fails_closed_witness:
  "presents_user demo_env demo_req ''u1''
   \<and> \<not> is_auth_error (Exn ''Error'' ''Connection terminated unexpectedly'')
   \<and> faults down_db = [Some (Exn ''Error'' ''Connection terminated unexpectedly'')]
   \<and> css_try demo_env 0 demo_req down_db =
       (Inl (Exn ''Error'' ''Connection terminated unexpectedly''), demo_db)
   \<and> checkSubscriptionStatus demo_env 0 demo_req down_db =
       (deny 500 ''Failed to verify subscription status'' None None, demo_db)
   \<and> faults write_down_db = [None, Some (Exn ''Error'' ''Connection terminated unexpectedly'')]
   \<and> find_user write_down_db ''u1'' = Some demo_user
   \<and> subscription_status demo_user = Some ''trial'' \<and> trial_end_date demo_user = Some 1000
   \<and> checkSubscriptionStatus demo_env 2000 demo_req write_down_db =
       (deny 500 ''Failed to verify subscription status'' None None, demo_db)
   \<and> cul_try ''leads'' demo_env (req_with_features (JObj starter_features)) down_db =
       (Inl (Exn ''Error'' ''Connection terminated unexpectedly''), demo_db)
   \<and> checkUsageLimit ''leads'' demo_env (req_with_features (JObj starter_features)) down_db =
       (deny 500 ''Failed to verify usage limits'' None None, demo_db)"
proof -
  let ?x = "Exn ''Error'' ''Connection terminated unexpectedly''"
  let ?req = "req_with_features (JObj starter_features)"
  let ?sub = "demo_sub (JObj starter_features)"
  have a: "faults down_db = Some ?x # []" by (simp add: down_db_def demo_db_def)
  have b: "\<not> is_auth_error ?x" by (simp add: is_auth_error_def)
  have c: "subscription ?req = Some ?sub" by (simp add: req_with_features_def)
  have d: "obj_get (limits ?sub) (''max'' @ capitalize ''leads'') \<noteq> JNull"
    by (simp add: capitalize_leads demo_sub_def obj_get_def)
  have t: "truthy (obj_get tableMap ''leads'')" by (simp add: obj_get_def tableMap_def)
  have r: "down_db\<lparr>faults := []\<rparr> = demo_db" by (simp add: down_db_def demo_db_def)
  have w: "faults write_down_db = None # Some ?x # []"
    by (simp add: write_down_db_def demo_db_def)
  have wr: "write_down_db\<lparr>faults := []\<rparr> = demo_db"
    by (simp add: write_down_db_def demo_db_def)
  have fu: "find_user write_down_db ''u1'' = Some demo_user"
    by (simp add: find_user_def write_down_db_def demo_db_def demo_user_def)
  have st: "subscription_status demo_user = Some ''trial''"
    and te: "trial_end_date demo_user = Some 1000"
    by (simp_all add: demo_user_def)
  have ct: "css_try demo_env 0 demo_req down_db = (Inl ?x, demo_db)"
    using css_try_read_fails [OF demo_presents a, of 0] r by simp
  have ut: "cul_try ''leads'' demo_env ?req down_db = (Inl ?x, demo_db)"
    using cul_try_count_fails [OF c d t a, of demo_env] r by simp
  from evaluation_fails_closed [of demo_env 0 demo_req down_db ?x demo_db "''u1''" "[]"
      demo_user 1000 "''leads''" ?sub] ct b
  have one: "checkSubscriptionStatus demo_env 0 demo_req down_db =
       (deny 500 ''Failed to verify subscription status'' None None, demo_db)"
    by blast
  from evaluation_fails_closed [of demo_env 0 demo_req down_db ?x demo_db "''u1''" "[]"
      demo_user 1000 "''leads''" ?sub] demo_presents a b
  have one': "checkSubscriptionStatus demo_env 0 demo_req down_db =
       (deny 500 ''Failed to verify subscription status'' None None, down_db\<lparr>faults := []\<rparr>)"
    by blast
  from evaluation_fails_closed [of demo_env 2000 demo_req write_down_db ?x demo_db "''u1''"
      "[]" demo_user 1000 "''leads''" ?sub] demo_presents w b fu st te
  have two: "checkSubscriptionStatus demo_env 2000 demo_req write_down_db =
       (deny 500 ''Failed to verify subscription status'' None None,
        write_down_db\<lparr>faults := []\<rparr>)"
    by simp
  from evaluation_fails_closed [of demo_env 0 ?req down_db ?x demo_db "''u1''" "[]"
      demo_user 1000 "''leads''" ?sub] ut
  have three: "checkUsageLimit ''leads'' demo_env ?req down_db =
       (deny 500 ''Failed to verify usage limits'' None None, demo_db)"
    by blast
  from evaluation_fails_closed [of demo_env 0 ?req down_db ?x demo_db "''u1''" "[]"
      demo_user 1000 "''leads''" ?sub] c d t a
  have three': "checkUsageLimit ''leads'' demo_env ?req down_db =
       (deny 500 ''Failed to verify usage limits'' None None, down_db\<lparr>faults := []\<rparr>)"
    by blast
  show ?thesis using demo_presents a b ct one w fu st te two wr ut three by simp
qed

subsection \<open>C9: a stored plan name that is no plan\<close>


subsection \<open>C10: a trial without an end date\<close>

text \<open>
  C10. A tenant whose status is \<^verbatim>\<open>trial\<close> and whose trial end is \<^verbatim>\<open>null\<close> is authorized
  at every time \<open>now\<close>: the request goes on to the handler with the subscription attached,
  and the evaluation writes nothing. The model's \<^verbatim>\<open>isTrialExpired\<close> is false for a
  subscription without a trial end, at every time.
\<close>

theorem trial_without_end_date_authorized:
  assumes "presents_user e req i" and "no_faults d" and "find_user d i = Some user"
    and "subscription_status user = Some ''trial''" and "trial_end_date user = None"
  shows "checkSubscriptionStatus e now req d =
           (Next (req\<lparr>subscription := Some
              \<lparr>userId = i, agencyId = agency_id user, status = Some ''trial'',
               planName = plan_name user, features = resolve_features (plan_name user),
               limits =
                 [(''maxLeads'', js_prop e (resolve_features (plan_name user)) ''max_leads''),
                  (''maxUsers'', js_prop e (resolve_features (plan_name user)) ''max_users''),
                  (''maxProperties'',
                     js_prop e (resolve_features (plan_name user)) ''max_properties'')],
               trialEndDate = None, isActive = True\<rparr>\<rparr>),
            d\<lparr>faults := tl (faults d)\<rparr>)
       \<and> users (snd (checkSubscriptionStatus e now req d)) = users d
       \<and> subscriptions (snd (checkSubscriptionStatus e now req d)) = subscriptions d
       \<and> \<not> isTrialExpired now (r\<lparr>sub_trial_end_date := None\<rparr>)"
proof -
  have act: "is_active_status (subscription_status user)"
    using assms(4) by (simp add: is_active_status_def)
  have "css_try e now req d =
     css_decide e now req user (d\<lparr>faults := tl (faults d)\<rparr>)"
    using assms(1,2,3) by (rule css_try_found)
  also have "\<dots> = (Inr (Next (req\<lparr>subscription := Some
        \<lparr>userId = uid user, agencyId = agency_id user,
         status = subscription_status user, planName = plan_name user,
         features = resolve_features (plan_name user),
         limits = [(''maxLeads'', js_prop e (resolve_features (plan_name user)) ''max_leads''),
                   (''maxUsers'', js_prop e (resolve_features (plan_name user)) ''max_users''),
                   (''maxProperties'',
                      js_prop e (resolve_features (plan_name user)) ''max_properties'')],
         trialEndDate = trial_end_date user, isActive = True\<rparr>\<rparr>)),
       d\<lparr>faults := tl (faults d)\<rparr>)"
    using act assms(5) by (intro css_decide_authorized) simp_all
  finally show ?thesis
    using assms(4,5) find_user_uid [OF assms(3)]
    by (simp add: checkSubscriptionStatus_def isTrialExpired_def)
qed

text \<open>The sample tenant without a trial end, some three thousand years on.\<close>

theorem trial_without_end_date_witness:
  "presents_user demo_env demo_req ''u1'' \<and> no_faults open_trial_db
   \<and> find_user open_trial_db ''u1'' = Some (demo_user\<lparr>trial_end_date := None\<rparr>)
   \<and> (case fst (checkSubscriptionStatus demo_env 99999999999999 demo_req open_trial_db) of
         Next r \<Rightarrow> map_option status (subscription r) = Some (Some ''trial'')
       | Respond r \<Rightarrow> False)
   \<and> users (snd (checkSubscriptionStatus demo_env 99999999999999 demo_req open_trial_db))
       = users open_trial_db"
proof -
  have a: "no_faults open_trial_db"
    by (simp add: no_faults_def open_trial_db_def demo_db_def)
  have b: "find_user open_trial_db ''u1'' = Some (demo_user\<lparr>trial_end_date := None\<rparr>)"
    by (simp add: find_user_def open_trial_db_def demo_db_def demo_user_def)
  have c: "subscription_status (demo_user\<lparr>trial_end_date := None\<rparr>) = Some ''trial''"
    by (simp add: demo_user_def)
  have d: "trial_end_date (demo_user\<lparr>trial_end_date := None\<rparr>) = None"
    by simp
  from trial_without_end_date_authorized [OF demo_presents a b c d, of 99999999999999]
    demo_presents a b
  show ?thesis by simp
qed

end
